theory Spec2Isabelle
  imports Complex_Main "HOL-Library.Sublist" "HOL-Library.AList"
begin

section \<open>JavaScript strings\<close>

text \<open>
  A JavaScript string is modelled as a \<^typ>\<open>string\<close>, one \<^typ>\<open>char\<close> per code unit
  (code units 0 to 255).  The functions below embed the built-in string methods the
  sources call, with the receiver as first argument: \<open>s.startsWith(p)\<close> is
  \<open>startsWith s p\<close>.
\<close>

fun startsWith :: "string \<Rightarrow> string \<Rightarrow> bool" where
  "startsWith s [] = True"
| "startsWith [] (p # ps) = False"
| "startsWith (c # cs) (p # ps) = (c = p \<and> startsWith cs ps)"

definition endsWith :: "string \<Rightarrow> string \<Rightarrow> bool" where
  "endsWith s p = startsWith (rev s) (rev p)"

fun includesStr :: "string \<Rightarrow> string \<Rightarrow> bool" where
  "includesStr [] p = (p = [])"
| "includesStr (c # cs) p = (startsWith (c # cs) p \<or> includesStr cs p)"

text \<open>
  White space as \<open>String.prototype.trim\<close> and the regular expression class \<open>\s\<close>
  see it, among the code units 0 to 255: tab, line feed, vertical tab, form feed,
  carriage return, space and the no-break space.
\<close>

definition is_ws :: "char \<Rightarrow> bool" where
  "is_ws c = (c \<in> {CHR 0x09, CHR 0x0A, CHR 0x0B, CHR 0x0C, CHR 0x0D, CHR 0x20, CHR 0xA0})"

definition trim :: "string \<Rightarrow> string" where
  "trim s = rev (dropWhile is_ws (rev (dropWhile is_ws s)))"

text \<open>\<open>s.split(sep)\<close> for a separator of one code unit: the result is never empty.\<close>

fun split :: "string \<Rightarrow> char \<Rightarrow> string list" where
  "split [] sep = [[]]"
| "split (c # cs) sep =
     (if c = sep then [] # split cs sep
      else (case split cs sep of
              [] \<Rightarrow> [[c]]
            | w # ws \<Rightarrow> (c # w) # ws))"

text \<open>\<open>s.replace(/c/g, r)\<close> for a pattern of one literal code unit.\<close>

definition replace_all :: "string \<Rightarrow> char \<Rightarrow> string \<Rightarrow> string" where
  "replace_all s c r = concat (map (\<lambda>x. if x = c then r else [x]) s)"

text \<open>\<open>s.replace(p, r)\<close> for a string pattern: only the first occurrence is replaced.\<close>

fun replace_first :: "string \<Rightarrow> string \<Rightarrow> string \<Rightarrow> string" where
  "replace_first [] p r = (if p = [] then r else [])"
| "replace_first (c # cs) p r =
     (if startsWith (c # cs) p then r @ drop (length p) (c # cs)
      else c # replace_first cs p r)"

text \<open>Decimal rendering of a non-negative integer, as a template literal prints it.\<close>

definition digit_char :: "nat \<Rightarrow> char" where
  "digit_char d = ''0123456789'' ! d"

function string_of_nat :: "nat \<Rightarrow> string" where
  "string_of_nat n =
     (if n < 10 then [digit_char n]
      else string_of_nat (n div 10) @ [digit_char (n mod 10)])"
  by pat_completeness auto
termination
  by (relation "measure (\<lambda>n. n)") auto

declare string_of_nat.simps [simp del]

text \<open>The decimal digits (the class \<open>[0-9]\<close>) and the number a digit stands for.\<close>

definition is_digit :: "char \<Rightarrow> bool" where
  "is_digit c = (48 \<le> (of_char c :: nat) \<and> (of_char c :: nat) \<le> 57)"

definition digit_value :: "char \<Rightarrow> nat" where
  "digit_value c = of_char c - 48"

text \<open>\<open>parts.join(sep)\<close>.\<close>

fun join :: "string list \<Rightarrow> string \<Rightarrow> string" where
  "join [] sep = []"
| "join [x] sep = x"
| "join (x # y # ys) sep = x @ sep @ join (y # ys) sep"

section \<open>Errors\<close>

text \<open>A thrown \<open>Error\<close> with its message; every \<open>throw\<close> of the sources is a branch
  \<open>Inl\<close> of the model.\<close>

datatype js_error = Error string

fun message :: "js_error \<Rightarrow> string" where
  "message (Error m) = m"

text \<open>Sequencing of steps that may throw: the first throw ends the block.\<close>

definition andThen :: "js_error + 'a \<Rightarrow> ('a \<Rightarrow> js_error + 'b) \<Rightarrow> js_error + 'b" where
  "andThen m f = (case m of Inl e \<Rightarrow> Inl e | Inr x \<Rightarrow> f x)"

section \<open>JSON values\<close>

text \<open>
  The values that cross the storage and network boundaries.  \<open>JSON.stringify\<close> and
  \<open>JSON.parse\<close> belong to the JavaScript engine, not to the repository: the model takes
  them as parameters (\<open>JSON_parse\<close> returns \<open>None\<close> where the built-in throws a
  \<open>SyntaxError\<close>).  A number is the rational it denotes.
\<close>

datatype json =
    JNull
  | JBool bool
  | JNum rat
  | JStr string
  | JArr "json list"
  | JObj "(string \<times> json) list"

text \<open>
  The environment of the process: whether it has a file system, the storage directory
  of \<open>lib/storage.ts\<close>, the engine's JSON functions, and the engine's conversion of a
  string or an array to a number as far as the sources use it: \<open>coercedPositive v\<close> tells
  whether the comparison \<open>v > 0\<close> holds for such a value \<open>v\<close>.
\<close>

record runtime =
  hasFileSystemAccess :: bool
  STORAGE_DIR :: string
  JSON_stringify :: "json \<Rightarrow> string"
  JSON_parse :: "string \<Rightarrow> json option"
  coercedPositive :: "json \<Rightarrow> bool"

section \<open>Outbound HTTP: \<open>fetchWithRetry\<close>\<close>

text \<open>
  A \<open>Response\<close> as the actions read it: the \<open>ok\<close> flag, the status code and text,
  and the body.  A call of \<open>fetch\<close> either resolves to a response (whatever its
  status) or throws.
\<close>

record response =
  ok :: bool
  status :: nat
  statusText :: string
  body :: string

text \<open>
  The network is the sequence of outcomes of the successive \<open>fetch\<close> calls; the state
  counts the calls made and records every \<open>setTimeout\<close> delay waited, in order.
\<close>

type_synonym network = "nat \<Rightarrow> js_error + response"

record net_state =
  calls :: nat
  sleeps :: "int list"

function fetchWithRetry :: "network \<Rightarrow> int \<Rightarrow> int \<Rightarrow> net_state \<Rightarrow> (js_error + response) \<times> net_state" where
  "fetchWithRetry net retries backoff s =
     (case net (calls s) of
        Inr resp \<Rightarrow> (Inr resp, s\<lparr>calls := calls s + 1\<rparr>)
      | Inl err \<Rightarrow>
          (if retries > 0
           then fetchWithRetry net (retries - 1) (backoff * 2)
                  (s\<lparr>calls := calls s + 1, sleeps := sleeps s @ [backoff]\<rparr>)
           else (Inl err, s\<lparr>calls := calls s + 1\<rparr>)))"
  by pat_completeness auto
termination
  by (relation "measure (\<lambda>(net, retries, backoff, s). nat retries)") auto

text \<open>The defaults of the signature: \<open>retries = 3\<close>, \<open>backoff = 1000\<close>.\<close>

definition fetchWithRetry_default :: "network \<Rightarrow> net_state \<Rightarrow> (js_error + response) \<times> net_state" where
  "fetchWithRetry_default net s = fetchWithRetry net 3 1000 s"

section \<open>Reading loosely typed values\<close>

text \<open>
  A property read \<open>v.name\<close> or \<open>v[0]\<close> gives \<open>undefined\<close> (\<open>None\<close>) where the value has
  no such property, and throws a \<open>TypeError\<close> on \<open>null\<close> and \<open>undefined\<close>.  The names read
  by the sources (\<open>candidates\<close>, \<open>content\<close>, \<open>parts\<close>, \<open>text\<close>, \<open>data\<close>, \<open>id\<close>,
  \<open>status\<close>, \<open>strengths\<close>, ...) are not built-in properties of strings, arrays, numbers
  or booleans.  An object holds each key once.
\<close>

fun truthy :: "json option \<Rightarrow> bool" where
  "truthy None = False"
| "truthy (Some JNull) = False"
| "truthy (Some (JBool b)) = b"
| "truthy (Some (JNum n)) = (n \<noteq> 0)"
| "truthy (Some (JStr s)) = (s \<noteq> [])"
| "truthy (Some (JArr xs)) = True"
| "truthy (Some (JObj kvs)) = True"

text \<open>An error the engine throws is represented by its name.\<close>

definition TypeError :: js_error where
  "TypeError = Error ''TypeError''"

fun member :: "json option \<Rightarrow> string \<Rightarrow> js_error + json option" where
  "member None k = Inl TypeError"
| "member (Some JNull) k = Inl TypeError"
| "member (Some (JObj kvs)) k = Inr (map_of kvs k)"
| "member (Some v) k = Inr None"

fun elem0 :: "json option \<Rightarrow> js_error + json option" where
  "elem0 None = Inl TypeError"
| "elem0 (Some JNull) = Inl TypeError"
| "elem0 (Some (JObj kvs)) = Inr (map_of kvs ''0'')"
| "elem0 (Some (JArr xs)) = Inr (case xs of [] \<Rightarrow> None | x # _ \<Rightarrow> Some x)"
| "elem0 (Some (JStr s)) = Inr (case s of [] \<Rightarrow> None | c # _ \<Rightarrow> Some (JStr [c]))"
| "elem0 (Some v) = Inr None"

text \<open>
  The conversion of a value to a string, as a template literal \<open>`${v}`\<close> makes it.  It
  throws a \<open>TypeError\<close> on an object with an own property \<open>toString\<close> (in parsed JSON
  that property is not a function, and the inherited \<open>valueOf\<close> returns the object
  itself), and on an array with such an element (\<open>join\<close> converts every element other
  than \<open>null\<close>); \<open>undefined\<close> and every other value have a string.  \<open>printed v\<close> is
  the value after it has been interpolated.
\<close>

fun toStringThrows :: "json \<Rightarrow> bool" where
  "toStringThrows (JObj kvs) = (''toString'' \<in> fst ` set kvs)"
| "toStringThrows (JArr xs) = list_ex toStringThrows xs"
| "toStringThrows v = False"

definition printed :: "json option \<Rightarrow> js_error + json option" where
  "printed v =
     (case v of
        None \<Rightarrow> Inr None
      | Some j \<Rightarrow> if toStringThrows j then Inl TypeError else Inr (Some j))"

text \<open>
  The comparison \<open>v > 0\<close>.  \<open>undefined\<close> and an object become \<open>NaN\<close>, \<open>null\<close>
  becomes 0 and \<open>true\<close> becomes 1; a string is converted by the engine, an array is
  first converted to a string and an object is too, which can throw as above.
\<close>

definition greaterThanZero :: "runtime \<Rightarrow> json option \<Rightarrow> js_error + bool" where
  "greaterThanZero rt v =
     (case v of
        None \<Rightarrow> Inr False
      | Some JNull \<Rightarrow> Inr False
      | Some (JBool b) \<Rightarrow> Inr b
      | Some (JNum n) \<Rightarrow> Inr (n > 0)
      | Some (JStr s) \<Rightarrow> Inr (coercedPositive rt (JStr s))
      | Some (JArr xs) \<Rightarrow>
          if toStringThrows (JArr xs) then Inl TypeError
          else Inr (coercedPositive rt (JArr xs))
      | Some (JObj kvs) \<Rightarrow>
          if toStringThrows (JObj kvs) then Inl TypeError else Inr False)"

text \<open>\<open>v.length\<close>: the length of an array or a string, else the property of that
  name.\<close>

definition lengthOf :: "json \<Rightarrow> js_error + json option" where
  "lengthOf v =
     (case v of
        JArr xs \<Rightarrow> Inr (Some (JNum (of_nat (length xs))))
      | JStr s \<Rightarrow> Inr (Some (JNum (of_nat (length s))))
      | _ \<Rightarrow> member (Some v) ''length'')"

text \<open>\<open>safeJsonParse(response)\<close>: the parsed body, or the parse error rethrown.\<close>

definition safeJsonParse :: "runtime \<Rightarrow> response \<Rightarrow> js_error + json" where
  "safeJsonParse rt resp =
     (case JSON_parse rt (body resp) of
        Some v \<Rightarrow> Inr v
      | None \<Rightarrow> Inl (Error ''SyntaxError''))"

section \<open>Key-value storage (\<open>lib/storage.ts\<close>)\<close>

text \<open>\<open>.replace(/https?_colon__slash__slash_/g, "")\<close>: every match, scanned left to right.\<close>

fun remove_scheme :: "string \<Rightarrow> string" where
  "remove_scheme [] = []"
| "remove_scheme (c # cs) =
     (if startsWith (c # cs) ''https_colon__slash__slash_''
        then remove_scheme (drop 25 cs)
      else if startsWith (c # cs) ''http_colon__slash__slash_''
        then remove_scheme (drop 24 cs)
      else c # remove_scheme cs)"

text \<open>The class \<open>[<>:"\\|?*]\<close> of the last replacement (\<open>CHR 0x22\<close> is the double quote,
  \<open>CHR 0x5C\<close> the backslash).\<close>

definition invalid_file_char :: "char \<Rightarrow> bool" where
  "invalid_file_char c =
     (c \<in> {CHR ''<'', CHR ''>'', CHR '':'', CHR 0x22, CHR 0x5C, CHR ''|'', CHR ''?'', CHR ''*''})"

definition sanitizeKey :: "string \<Rightarrow> string" where
  "sanitizeKey key =
     (let k1 = replace_all key CHR '':'' ''_colon_'';
          k2 = replace_all k1 CHR ''/'' ''_slash_'';
          k3 = replace_all k2 CHR 0x5C ''_backslash_'';
          k4 = replace_all k3 CHR ''?'' ''_question_'';
          k5 = replace_all k4 CHR ''&'' ''_amp_'';
          k6 = replace_all k5 CHR ''='' ''_equals_'';
          k7 = replace_all k6 CHR ''.'' ''_dot_'';
          k8 = remove_scheme k7
      in map (\<lambda>c. if invalid_file_char c then CHR ''_'' else c) k8)"

text \<open>
  \<open>path.join(STORAGE_DIR, name)\<close> for a \<open>name\<close> of one path segment; \<open>dirname\<close> and
  \<open>basename\<close> split a path at its last separator (the slash, and the backslash on
  Windows).
\<close>

definition path_join :: "string \<Rightarrow> string \<Rightarrow> string" where
  "path_join dir name = dir @ ''/'' @ name"

definition is_sep :: "char \<Rightarrow> bool" where
  "is_sep c = (c = CHR ''/'' \<or> c = CHR 0x5C)"

definition basename :: "string \<Rightarrow> string" where
  "basename p = rev (takeWhile (\<lambda>c. \<not> is_sep c) (rev p))"

definition dirname :: "string \<Rightarrow> string" where
  "dirname p = rev (drop 1 (dropWhile (\<lambda>c. \<not> is_sep c) (rev p)))"

definition filePath :: "runtime \<Rightarrow> string \<Rightarrow> string" where
  "filePath rt safeKey = path_join (STORAGE_DIR rt) (safeKey @ ''.json'')"

text \<open>
  The state: \<open>memoryStore\<close>, a plain object, as the list of its own properties in
  insertion order, and the files of the storage directory by path.  A plain object also
  inherits the properties of \<open>Object.prototype\<close>: a read \<open>memoryStore[k]\<close> of a name that
  is not an own property finds them, \<open>for ... in\<close> and \<open>Object.entries\<close> do not list
  them, and an assignment of a string to \<open>__proto__\<close> creates no property.
\<close>

record store =
  memoryStore :: "(string \<times> string) list"
  files :: "(string \<times> string) list"

text \<open>
  The order in which \<open>for ... in\<close> and \<open>Object.entries\<close> visit the own properties:
  first the keys that spell an array index (a decimal number below \<open>2^32 - 1\<close> without
  a leading zero) in ascending numeric order, then the other keys in insertion order.
\<close>

definition index_value :: "string \<Rightarrow> nat" where
  "index_value k = foldl (\<lambda>n c. 10 * n + digit_value c) 0 k"

definition is_index :: "string \<Rightarrow> bool" where
  "is_index k =
     (k \<noteq> [] \<and> list_all is_digit k \<and> (length k = 1 \<or> hd k \<noteq> CHR ''0'')
      \<and> index_value k < 2 ^ 32 - 1)"

definition ownEntries :: "(string \<times> string) list \<Rightarrow> (string \<times> string) list" where
  "ownEntries m =
     sort_key (\<lambda>kv. index_value (fst kv)) (filter (\<lambda>kv. is_index (fst kv)) m)
     @ filter (\<lambda>kv. \<not> is_index (fst kv)) m"

definition object_prototype :: "string list" where
  "object_prototype =
     [''constructor'', ''hasOwnProperty'', ''isPrototypeOf'', ''propertyIsEnumerable'',
      ''toLocaleString'', ''toString'', ''valueOf'', ''__proto__'',
      ''__defineGetter__'', ''__defineSetter__'', ''__lookupGetter__'', ''__lookupSetter__'']"

datatype property = Undefined | OwnString string | Inherited string

definition read_prop :: "(string \<times> string) list \<Rightarrow> string \<Rightarrow> property" where
  "read_prop m k =
     (case map_of m k of
        Some v \<Rightarrow> OwnString v
      | None \<Rightarrow> if k \<in> set object_prototype then Inherited k else Undefined)"

definition write_prop :: "(string \<times> string) list \<Rightarrow> string \<Rightarrow> string \<Rightarrow> (string \<times> string) list" where
  "write_prop m k v = (if k = ''__proto__'' then m else AList.update k v m)"

definition delete_prop :: "(string \<times> string) list \<Rightarrow> string \<Rightarrow> (string \<times> string) list" where
  "delete_prop m k = AList.delete k m"

text \<open>\<open>memoryStore[`key_map:${key}`] || sanitizeKey(key)\<close>; no inherited name starts
  with \<open>key_map:\<close>.\<close>

definition safeKey_of :: "store \<Rightarrow> string \<Rightarrow> string" where
  "safeKey_of st key =
     (case read_prop (memoryStore st) (''key_map:'' @ key) of
        OwnString v \<Rightarrow> if v \<noteq> [] then v else sanitizeKey key
      | Inherited n \<Rightarrow> sanitizeKey key
      | Undefined \<Rightarrow> sanitizeKey key)"

text \<open>
  \<open>storage.set\<close>.  \<open>io\<close> tells whether the disk operation of this call succeeds;
  when \<open>fs.writeFile\<close> throws, the value goes to the memory store.
\<close>

definition stringValue :: "runtime \<Rightarrow> json \<Rightarrow> string" where
  "stringValue rt v = (case v of JStr s \<Rightarrow> s | _ \<Rightarrow> JSON_stringify rt v)"

definition set_item :: "runtime \<Rightarrow> bool \<Rightarrow> string \<Rightarrow> json \<Rightarrow> store \<Rightarrow> store" where
  "set_item rt io key v st =
     (if hasFileSystemAccess rt then
        (if io then
           st\<lparr>files := AList.update (filePath rt (sanitizeKey key)) (stringValue rt v) (files st),
              memoryStore := write_prop (memoryStore st) (''key_map:'' @ key) (sanitizeKey key)\<rparr>
         else st\<lparr>memoryStore := write_prop (memoryStore st) key (stringValue rt v)\<rparr>)
      else st\<lparr>memoryStore := write_prop (memoryStore st) key (stringValue rt v)\<rparr>)"

text \<open>
  \<open>storage.get\<close>.  The result is \<open>null\<close>, a parsed value, the stored string as it is, or
  a value inherited from \<open>Object.prototype\<close>; a \<open>JSON.parse\<close> that throws outside the
  \<open>try\<close> block rejects the call.
\<close>

datatype got = Null | Parsed json | Raw string | Builtin string

definition get_memory :: "runtime \<Rightarrow> store \<Rightarrow> string \<Rightarrow> js_error + got" where
  "get_memory rt st key =
     (case read_prop (memoryStore st) key of
        Undefined \<Rightarrow> Inr Null
      | Inherited n \<Rightarrow> Inr (Builtin n)
      | OwnString s \<Rightarrow>
          (if s = [] then Inr Null
           else if startsWith s ''{'' then
             (case JSON_parse rt s of
                Some v \<Rightarrow> Inr (Parsed v)
              | None \<Rightarrow> Inl (Error ''SyntaxError''))
           else Inr (Raw s)))"

definition get_item :: "runtime \<Rightarrow> bool \<Rightarrow> store \<Rightarrow> string \<Rightarrow> js_error + got" where
  "get_item rt io st key =
     (if hasFileSystemAccess rt then
        (case (if io then map_of (files st) (filePath rt (safeKey_of st key)) else None) of
           Some data \<Rightarrow>
             (case JSON_parse rt data of
                Some v \<Rightarrow> Inr (Parsed v)
              | None \<Rightarrow> get_memory rt st key)
         | None \<Rightarrow> get_memory rt st key)
      else get_memory rt st key)"

text \<open>\<open>storage.del\<close>: when \<open>fs.unlink\<close> throws, the key mapping stays.\<close>

definition del_item :: "runtime \<Rightarrow> bool \<Rightarrow> string \<Rightarrow> store \<Rightarrow> store" where
  "del_item rt io key st =
     (let st1 =
        (if hasFileSystemAccess rt
            \<and> io \<and> map_of (files st) (filePath rt (safeKey_of st key)) \<noteq> None
         then st\<lparr>files := AList.delete (filePath rt (safeKey_of st key)) (files st),
                 memoryStore := delete_prop (memoryStore st) (''key_map:'' @ key)\<rparr>
         else st)
      in st1\<lparr>memoryStore := delete_prop (memoryStore st1) key\<rparr>)"

text \<open>
  \<open>storage.keys\<close>.  \<open>dir\<close> is the listing \<open>fs.readdir\<close> returns (\<open>None\<close> when it
  throws).  The first loop maps every \<open>.json\<close> file back to its original key through the
  first matching \<open>key_map:\<close> entry of \<open>Object.entries(memoryStore)\<close>; the second adds
  the keys of the memory store.
\<close>

fun originalKey :: "(string \<times> string) list \<Rightarrow> string \<Rightarrow> string" where
  "originalKey [] safeKey = safeKey"
| "originalKey ((mapKey, mapValue) # es) safeKey =
     (if startsWith mapKey ''key_map:'' \<and> mapValue = safeKey
      then replace_first mapKey ''key_map:'' []
      else originalKey es safeKey)"

fun keys_files :: "(string \<times> string) list \<Rightarrow> string \<Rightarrow> string list \<Rightarrow> string list \<Rightarrow> string list" where
  "keys_files m pfx [] keys = keys"
| "keys_files m pfx (file # fs) keys =
     (if endsWith file ''.json''
      then (let k = originalKey m (replace_first file ''.json'' [])
            in keys_files m pfx fs (if startsWith k pfx then keys @ [k] else keys))
      else keys_files m pfx fs keys)"

fun keys_memory :: "string \<Rightarrow> string list \<Rightarrow> string list \<Rightarrow> string list" where
  "keys_memory pfx [] keys = keys"
| "keys_memory pfx (key # ks) keys =
     keys_memory pfx ks
       (if startsWith key pfx \<and> \<not> startsWith key ''key_map:'' \<and> key \<notin> set keys
        then keys @ [key] else keys)"

definition keys_of :: "runtime \<Rightarrow> string list option \<Rightarrow> store \<Rightarrow> string \<Rightarrow> string list" where
  "keys_of rt dir st pfx =
     (let keys1 =
        (if hasFileSystemAccess rt then
           (case dir of
              Some fs \<Rightarrow> keys_files (ownEntries (memoryStore st)) pfx fs []
            | None \<Rightarrow> [])
         else [])
      in keys_memory pfx (map fst (ownEntries (memoryStore st))) keys1)"

section \<open>Product extraction (\<open>extract-product-data-action.ts\<close>)\<close>

text \<open>The table rows of the model's answer: trimmed lines between pipes, without the
  separator line and the header line.\<close>

definition isTableRow :: "string \<Rightarrow> bool" where
  "isTableRow row =
     (startsWith row ''|'' \<and> endsWith row ''|''
      \<and> \<not> includesStr row ''---'' \<and> \<not> includesStr row ''Product Name'')"

definition tableRows :: "string \<Rightarrow> string list" where
  "tableRows text = filter isTableRow (map trim (split text CHR 0x0A))"

definition columns :: "string \<Rightarrow> string list" where
  "columns row = filter (\<lambda>col. col \<noteq> []) (map trim (split row CHR ''|''))"

definition productEntry :: "string list \<Rightarrow> json" where
  "productEntry cols =
     JObj [(''name'', JStr (cols ! 0)), (''price'', JStr (cols ! 1)),
           (''imageUrl'', JStr (cols ! 2)), (''rating'', JNum 0),
           (''reviews'', JNum 0), (''url'', JStr [])]"

text \<open>The callback of \<open>map\<close>: an entry for a row of at least three columns, else \<open>null\<close>,
  which \<open>filter(Boolean)\<close> drops.\<close>

definition productOfRow :: "string \<Rightarrow> json option" where
  "productOfRow row =
     (let cols = columns row in
      if length cols \<ge> 3 then Some (productEntry cols) else None)"

definition structuredProducts :: "string \<Rightarrow> json list" where
  "structuredProducts text = List.map_filter productOfRow (tableRows text)"

text \<open>
  The \<open>try\<close> block after the request: the checks on the answer, the text of the first
  candidate, the table.  \<open>Inl\<close> is a throw, which the \<open>catch\<close> turns into the raw data.
\<close>

definition responseText :: "json \<Rightarrow> js_error + json list option" where
  "responseText data =
     andThen (member (Some data) ''candidates'') (\<lambda>candidates.
     if \<not> truthy candidates then Inr None else
     andThen (elem0 candidates) (\<lambda>candidate.
     if \<not> truthy candidate then Inr None else
     andThen (member candidate ''content'') (\<lambda>content.
     if \<not> truthy content then Inr None else
     andThen (member content ''parts'') (\<lambda>parts.
     if \<not> truthy parts then Inr None else
     andThen (elem0 parts) (\<lambda>part.
     if \<not> truthy part then Inr None else
     andThen (member part ''text'') (\<lambda>text.
     case text of
       Some (JStr t) \<Rightarrow> Inr (Some (structuredProducts t))
     | _ \<Rightarrow> Inl TypeError))))))"

text \<open>
  \<open>extractProductData(rawData)\<close>.  \<open>key\<close> is the environment variable \<open>GEMINI_API_KEY\<close>,
  \<open>rawData\<close> is \<open>None\<close> for an absent argument; the result \<open>None\<close> is that absent argument
  returned as it came.
\<close>

definition extractProductData ::
  "runtime \<Rightarrow> string option \<Rightarrow> network \<Rightarrow> net_state \<Rightarrow> json list option
     \<Rightarrow> json list option \<times> net_state" where
  "extractProductData rt key net s rawData =
     (if key = None \<or> key = Some [] then (rawData, s)
      else if rawData = None \<or> rawData = Some [] then (Some [], s)
      else
        (case fetchWithRetry net 3 1000 s of
           (Inl e, s') \<Rightarrow> (rawData, s')
         | (Inr resp, s') \<Rightarrow>
             if \<not> ok resp then (rawData, s')
             else
               (case safeJsonParse rt resp of
                  Inl e \<Rightarrow> (rawData, s')
                | Inr data \<Rightarrow>
                    (case responseText data of
                       Inl e \<Rightarrow> (rawData, s')
                     | Inr None \<Rightarrow> (rawData, s')
                     | Inr (Some products) \<Rightarrow>
                         if products = [] then (rawData, s') else (Some products, s')))))"

section \<open>Ratings: the scraper's page function and the results view\<close>

text \<open>
  The page function that \<open>scrapeWebsite\<close> sends to the scraper reads the rating of a
  product element from the text of the first rating selector that has one.
  \<open>el\<close> gives the text of the element under a selector.
\<close>

fun extractText :: "(string \<Rightarrow> string) \<Rightarrow> string list \<Rightarrow> string" where
  "extractText el [] = []"
| "extractText el (selector # selectors) =
     (let text = trim (el selector) in
      if text \<noteq> [] then text else extractText el selectors)"

definition ratingSelectors :: "string list" where
  "ratingSelectors =
     [''.rating'', ''.stars'', ''.star-rating'', ''[class*=\"rating\"]'',
      ''[class*=\"stars\"]'', ''.a-star-rating'', ''.a-icon-star'',
      ''.product-rating'', ''.rating-box'', ''.rating-container'']"

text \<open>
  \<open>ratingText.match(/([0-9]\.[0-9])|([0-9])/)\<close>: the match starts at the first digit, and
  takes a following dot and digit when they are there.
\<close>

fun ratingMatch :: "string \<Rightarrow> string option" where
  "ratingMatch [] = None"
| "ratingMatch (c # cs) =
     (if is_digit c then
        (case cs of
           d # e # rest \<Rightarrow> if d = CHR ''.'' \<and> is_digit e then Some [c, d, e] else Some [c]
         | _ \<Rightarrow> Some [c])
      else ratingMatch cs)"

text \<open>\<open>parseFloat\<close> of such a match: the decimal number it spells (the engine keeps the
  nearest double, which compares with 0 and 5 as the decimal does).\<close>

fun parseFloat :: "string \<Rightarrow> rat" where
  "parseFloat [c] = of_nat (digit_value c)"
| "parseFloat [c, d, e] = of_nat (digit_value c) + of_nat (digit_value e) / 10"
| "parseFloat s = 0"

definition ratingOfText :: "string \<Rightarrow> rat" where
  "ratingOfText ratingText =
     (if ratingText \<noteq> [] then
        (case ratingMatch ratingText of
           Some m \<Rightarrow> parseFloat m
         | None \<Rightarrow> 0)
      else 0)"

definition scrapedRating :: "(string \<Rightarrow> string) \<Rightarrow> rat" where
  "scrapedRating el = ratingOfText (extractText el ratingSelectors)"

text \<open>
  The results view (\<open>cleanProductData\<close> in \<open>client-results.tsx\<close>) shows
  \<open>typeof product.rating === "number" ? Math.min(5, Math.max(0, product.rating)) : 0\<close>.
\<close>

definition cleanProductData_rating :: "json option \<Rightarrow> rat" where
  "cleanProductData_rating r = (case r of Some (JNum x) \<Rightarrow> min 5 (max 0 x) | _ \<Rightarrow> 0)"

section \<open>SWOT comparison: the JSON of the model's answer\<close>

record WebsiteData =
  url :: string
  title :: string
  description :: string
  siteKeywords :: "string list"
  headings :: "string list"
  content :: string
  links :: "string list"
  images :: "string list"
  lastScraped :: nat

record swot =
  strengths :: "json list"
  weaknesses :: "json list"
  opportunities :: "json list"
  threats :: "json list"

definition generateFallbackSWOT :: "WebsiteData \<Rightarrow> WebsiteData list \<Rightarrow> swot" where
  "generateFallbackSWOT mainWebsite competitors =
     \<lparr>strengths = map JStr
        ((if title mainWebsite \<noteq> [] \<and> length (title mainWebsite) > 5
          then [''Clear website title: \"'' @ title mainWebsite @ ''\"''] else [])
         @ (if description mainWebsite \<noteq> [] \<and> length (description mainWebsite) > 10
            then [''Descriptive meta description that explains the website purpose''] else [])
         @ (if length (siteKeywords mainWebsite) > 0
            then [''Defined keywords that can help with SEO: '' @ join (siteKeywords mainWebsite) '', '']
            else [])),
      weaknesses = map JStr
        ((if description mainWebsite = [] \<or> length (description mainWebsite) < 10
          then [''Missing or very short meta description''] else [])
         @ (if length (siteKeywords mainWebsite) = 0
            then [''No keywords defined for SEO''] else [])
         @ (if length (content mainWebsite) < 1000
            then [''Limited content length which may affect SEO rankings''] else [])),
      opportunities = map JStr
        [''Expand website content to improve search engine visibility'',
         ''Add more descriptive headings to improve content structure'',
         ''Optimize meta tags and descriptions for better SEO performance''],
      threats = map JStr
        ((if length competitors > 0
          then [''Competition from '' @ string_of_nat (length competitors)
                  @ '' similar websites in the same space''] else [])
         @ [''Rapidly changing SEO algorithms requiring constant optimization'',
            ''Potential for competitors to target the same keywords and audience''])\<rparr>"

text \<open>
  \<open>text.match(/```(?:json)?\s*([\s\S]*?)```/)\<close>, the captured group.  The match opens at
  the first fence of the text, skips an optional \<open>json\<close> tag and white space, and the lazy
  group runs to the next fence; without a later fence nothing matches.
\<close>

fun afterFence :: "string \<Rightarrow> string option" where
  "afterFence [] = None"
| "afterFence (c # cs) =
     (if startsWith (c # cs) ''```'' then Some (drop 2 cs) else afterFence cs)"

fun beforeFence :: "string \<Rightarrow> string option" where
  "beforeFence [] = None"
| "beforeFence (c # cs) =
     (if startsWith (c # cs) ''```'' then Some []
      else map_option ((#) c) (beforeFence cs))"

definition codeBlockMatch :: "string \<Rightarrow> string option" where
  "codeBlockMatch text =
     (case afterFence text of
        None \<Rightarrow> None
      | Some rest \<Rightarrow>
          beforeFence (dropWhile is_ws (if startsWith rest ''json'' then drop 4 rest else rest)))"

definition jsonCandidate :: "string \<Rightarrow> string" where
  "jsonCandidate text =
     (if includesStr text ''```json'' \<or> includesStr text ''```'' then
        (case codeBlockMatch text of
           Some block \<Rightarrow> if block \<noteq> [] then trim block else text
         | None \<Rightarrow> text)
      else text)"

text \<open>\<open>indexOf\<close>, \<open>lastIndexOf\<close> (\<open>-1\<close> when absent) and \<open>substring\<close>.\<close>

definition indexOf :: "string \<Rightarrow> char \<Rightarrow> int" where
  "indexOf s c = (if c \<in> set s then int (length (takeWhile (\<lambda>x. x \<noteq> c) s)) else - 1)"

definition lastIndexOf :: "string \<Rightarrow> char \<Rightarrow> int" where
  "lastIndexOf s c =
     (if c \<in> set s then int (length s) - 1 - int (length (takeWhile (\<lambda>x. x \<noteq> c) (rev s)))
      else - 1)"

definition substring :: "string \<Rightarrow> nat \<Rightarrow> nat \<Rightarrow> string" where
  "substring s i j = take (j - i) (drop i s)"

text \<open>The object built from a parsed answer; reading a property of \<open>null\<close> throws.\<close>

definition arrayOrEmpty :: "json option \<Rightarrow> json list" where
  "arrayOrEmpty v = (case v of Some (JArr xs) \<Rightarrow> xs | _ \<Rightarrow> [])"

definition swotOf :: "json \<Rightarrow> js_error + swot" where
  "swotOf swotAnalysis =
     andThen (member (Some swotAnalysis) ''strengths'') (\<lambda>sv.
     andThen (member (Some swotAnalysis) ''weaknesses'') (\<lambda>wv.
     andThen (member (Some swotAnalysis) ''opportunities'') (\<lambda>ov.
     andThen (member (Some swotAnalysis) ''threats'') (\<lambda>tv.
     Inr \<lparr>strengths = arrayOrEmpty sv, weaknesses = arrayOrEmpty wv,
          opportunities = arrayOrEmpty ov, threats = arrayOrEmpty tv\<rparr>))))"

definition parseSwot :: "runtime \<Rightarrow> string \<Rightarrow> js_error + swot" where
  "parseSwot rt str =
     (case JSON_parse rt str of
        None \<Rightarrow> Inl (Error ''SyntaxError'')
      | Some v \<Rightarrow> swotOf v)"

text \<open>
  The extraction in \<open>compareWebsites\<close>, from the answer's text on; and
  \<open>compareWebsites\<close> itself, where \<open>answer\<close> is the outcome of the steps before it (the
  API key, the prompt, the call of the model): a throw there ends in the outer \<open>catch\<close>.
\<close>

definition compareWebsites_extract :: "runtime \<Rightarrow> WebsiteData \<Rightarrow> WebsiteData list \<Rightarrow> string \<Rightarrow> swot" where
  "compareWebsites_extract rt mainWebsite competitors text =
     (let jsonStr = jsonCandidate text in
      case parseSwot rt jsonStr of
        Inr result \<Rightarrow> result
      | Inl parseError \<Rightarrow>
          (let jsonStartIndex = indexOf jsonStr CHR ''{'';
               jsonEndIndex = lastIndexOf jsonStr CHR ''}''
           in if jsonStartIndex \<noteq> - 1 \<and> jsonEndIndex \<noteq> - 1 \<and> jsonEndIndex > jsonStartIndex
              then (case parseSwot rt
                           (substring jsonStr (nat jsonStartIndex) (nat (jsonEndIndex + 1))) of
                      Inr result \<Rightarrow> result
                    | Inl extractError \<Rightarrow> generateFallbackSWOT mainWebsite competitors)
              else generateFallbackSWOT mainWebsite competitors))"

definition compareWebsites :: "runtime \<Rightarrow> js_error + string \<Rightarrow> WebsiteData \<Rightarrow> WebsiteData list \<Rightarrow> swot" where
  "compareWebsites rt answer mainWebsite competitors =
     (case answer of
        Inl error \<Rightarrow> generateFallbackSWOT mainWebsite competitors
      | Inr text \<Rightarrow> compareWebsites_extract rt mainWebsite competitors text)"

text \<open>
  The algorithm as the specification words it: parse the whole text; else parse the
  contents of a fenced block; else parse from the first \<open>{\<close> to the last \<open>}\<close> of the
  text; else the fallback.
\<close>

definition spec_extract :: "runtime \<Rightarrow> WebsiteData \<Rightarrow> WebsiteData list \<Rightarrow> string \<Rightarrow> swot" where
  "spec_extract rt mainWebsite competitors text =
     (case parseSwot rt text of
        Inr result \<Rightarrow> result
      | Inl e1 \<Rightarrow>
          (case (case codeBlockMatch text of
                   Some block \<Rightarrow> parseSwot rt (trim block)
                 | None \<Rightarrow> Inl e1) of
             Inr result \<Rightarrow> result
           | Inl e2 \<Rightarrow>
               (let i = indexOf text CHR ''{''; j = lastIndexOf text CHR ''}''
                in if i \<noteq> - 1 \<and> j \<noteq> - 1 \<and> j > i
                   then (case parseSwot rt (substring text (nat i) (nat (j + 1))) of
                           Inr result \<Rightarrow> result
                         | Inl e3 \<Rightarrow> generateFallbackSWOT mainWebsite competitors)
                   else generateFallbackSWOT mainWebsite competitors)))"

section \<open>Product comparison (\<open>product-comparison-action.ts\<close>)\<close>

subsection \<open>\<open>scrapeWebsite\<close>: starting the run and polling it\<close>

text \<open>
  One pass of the polling loop either goes on polling, sets \<open>taskResult\<close> (and
  \<open>taskComplete\<close>), returns early with the empty array, or throws.
\<close>

datatype poll_outcome =
    Polling
  | Done "json list"
  | Returned "json list"
  | Thrown js_error

text \<open>\<open>datasetItems.flat()\<close>: arrays among the items are spliced in, one level deep.\<close>

definition flat :: "json list \<Rightarrow> json list" where
  "flat xs = concat (map (\<lambda>x. case x of JArr ys \<Rightarrow> ys | _ \<Rightarrow> [x]) xs)"

text \<open>
  The debugging loop over the first five products prints \<open>product.imageUrl || "none"\<close>:
  reading the property throws on \<open>null\<close>, and a truthy value is converted to a string.
\<close>

definition imageUrlLogged :: "json \<Rightarrow> js_error + json option" where
  "imageUrlLogged product =
     andThen (member (Some product) ''imageUrl'') (\<lambda>u. if truthy u then printed u else Inr u)"

text \<open>
  The branch on \<open>datasetItems.length > 0\<close>.  The dataset of a run is an array; for the
  other values \<open>JSON.parse\<close> can give, \<open>null\<close> has no \<open>length\<close> to read and a value
  whose \<open>length\<close> compares greater than zero has no \<open>flat\<close> to call (a \<open>TypeError\<close>
  each), and the rest take the early return.  After \<open>flat\<close>, a throw of the debugging
  loop leaves the \<open>try\<close> block as well.
\<close>

definition datasetOutcome :: "runtime \<Rightarrow> json \<Rightarrow> poll_outcome" where
  "datasetOutcome rt datasetItems =
     (case andThen (lengthOf datasetItems) (greaterThanZero rt) of
        Inl e \<Rightarrow> Thrown e
      | Inr positive \<Rightarrow>
          if positive then
            (case datasetItems of
               JArr xs \<Rightarrow>
                 (let taskResult = flat xs in
                  if list_ex (\<lambda>product. isl (imageUrlLogged product)) (take 5 taskResult)
                  then Thrown TypeError else Done taskResult)
             | _ \<Rightarrow> Thrown TypeError)
          else Returned [])"

definition maxAttempts :: nat where
  "maxAttempts = 30"

text \<open>\<open>statusData.data.status\<close> of a status response, which is printed before it is
  compared.\<close>

definition runStatus :: "runtime \<Rightarrow> response \<Rightarrow> js_error + json option" where
  "runStatus rt statusResponse =
     andThen (safeJsonParse rt statusResponse) (\<lambda>statusData.
     andThen (member (Some statusData) ''data'') (\<lambda>d.
     andThen (member d ''status'') printed))"

definition terminalFailure :: "json option \<Rightarrow> bool" where
  "terminalFailure st =
     (st = Some (JStr ''FAILED'') \<or> st = Some (JStr ''TIMED-OUT'') \<or> st = Some (JStr ''ABORTED''))"

definition statusString :: "json option \<Rightarrow> string" where
  "statusString st = (case st of Some (JStr s) \<Rightarrow> s | _ \<Rightarrow> [])"

text \<open>The body of the loop after \<open>attempts++\<close>: the wait of 5 seconds, the status
  request, and on success the dataset request.\<close>

definition pollOnce :: "runtime \<Rightarrow> network \<Rightarrow> net_state \<Rightarrow> poll_outcome \<times> net_state" where
  "pollOnce rt net s =
     (case fetchWithRetry net 3 1000 (s\<lparr>sleeps := sleeps s @ [5000]\<rparr>) of
        (Inl e, s2) \<Rightarrow> (Thrown e, s2)
      | (Inr statusResponse, s2) \<Rightarrow>
          if \<not> ok statusResponse then (Polling, s2)
          else
            (case runStatus rt statusResponse of
               Inl e \<Rightarrow> (Thrown e, s2)
             | Inr st \<Rightarrow>
                 if st = Some (JStr ''SUCCEEDED'') then
                   (case fetchWithRetry net 3 1000 s2 of
                      (Inl e, s3) \<Rightarrow> (Thrown e, s3)
                    | (Inr datasetResponse, s3) \<Rightarrow>
                        if \<not> ok datasetResponse then
                          (Thrown (Error (''Failed to fetch Cheerio Scraper results: ''
                                            @ statusText datasetResponse)), s3)
                        else
                          (case safeJsonParse rt datasetResponse of
                             Inl e \<Rightarrow> (Thrown e, s3)
                           | Inr datasetItems \<Rightarrow> (datasetOutcome rt datasetItems, s3)))
                 else if terminalFailure st then
                   (Thrown (Error (''Cheerio Scraper task failed with status: ''
                                     @ statusString st)), s2)
                 else (Polling, s2)))"

text \<open>
  The loop \<open>while (!taskComplete && attempts < maxAttempts)\<close> and the statements after
  it: when the attempts run out with no result, the timeout error is thrown.
\<close>

function pollLoop :: "runtime \<Rightarrow> network \<Rightarrow> nat \<Rightarrow> net_state \<Rightarrow> (js_error + json list) \<times> net_state" where
  "pollLoop rt net attempts s =
     (if attempts < maxAttempts then
        (case pollOnce rt net s of
           (Polling, s') \<Rightarrow> pollLoop rt net (attempts + 1) s'
         | (Done taskResult, s') \<Rightarrow> (Inr taskResult, s')
         | (Returned r, s') \<Rightarrow> (Inr r, s')
         | (Thrown e, s') \<Rightarrow> (Inl e, s'))
      else
        (Inl (Error (''Cheerio Scraper task did not complete after ''
                       @ string_of_nat maxAttempts @ '' attempts'')), s))"
  by pat_completeness auto
termination
  by (relation "measure (\<lambda>(rt, net, attempts, s). maxAttempts - attempts)") auto

text \<open>\<open>data.data.id\<close> of the response to the start request, which is printed.\<close>

definition startedRun :: "runtime \<Rightarrow> response \<Rightarrow> js_error + json option" where
  "startedRun rt resp =
     andThen (safeJsonParse rt resp) (\<lambda>data.
     andThen (member (Some data) ''data'') (\<lambda>d.
     andThen (member d ''id'') printed))"

text \<open>
  The \<open>try\<close> block of \<open>scrapeWebsite\<close>, and \<open>scrapeWebsite\<close>: its \<open>catch\<close> logs the error and
  returns the empty array.  The start URL and the page function go into the request and
  have no part in what the function does with the responses.
\<close>

definition scrapeWebsite_try ::
  "runtime \<Rightarrow> string option \<Rightarrow> network \<Rightarrow> net_state \<Rightarrow> (js_error + json list) \<times> net_state" where
  "scrapeWebsite_try rt apifyToken net s =
     (if apifyToken = None \<or> apifyToken = Some [] then
        (Inl (Error ''APIFY_API_TOKEN environment variable is not set''), s)
      else
        (case fetchWithRetry net 3 1000 s of
           (Inl e, s1) \<Rightarrow> (Inl e, s1)
         | (Inr resp, s1) \<Rightarrow>
             if \<not> ok resp then
               (Inl (Error (''Failed to start Cheerio Scraper: '' @ string_of_nat (status resp)
                              @ '' '' @ statusText resp)), s1)
             else
               (case startedRun rt resp of
                  Inl e \<Rightarrow> (Inl e, s1)
                | Inr runId \<Rightarrow> pollLoop rt net 0 s1)))"

definition scrapeWebsite ::
  "runtime \<Rightarrow> string option \<Rightarrow> network \<Rightarrow> net_state \<Rightarrow> json list \<times> net_state" where
  "scrapeWebsite rt apifyToken net s =
     (case scrapeWebsite_try rt apifyToken net s of
        (Inl error, s') \<Rightarrow> ([], s')
      | (Inr taskResult, s') \<Rightarrow> (taskResult, s'))"

subsection \<open>\<open>analyzeProductData\<close>\<close>

record priceRanges =
  min_price :: rat
  max_price :: rat
  average_price :: rat

record analysis =
  priceRanges :: priceRanges
  topRatedProducts :: "json list"
  mostReviewedProducts :: "json list"
  recommendations :: "json list"

text \<open>
  \<open>analyzeProductData\<close> returns an object from its \<open>try\<close> block and an object from its
  \<open>catch\<close>.  The \<open>try\<close> block (the price statistics, the two rankings and the call of the
  model) is a parameter: the result of the block for the given products, or its throw.
\<close>

definition analyzeProductData :: "(json list \<Rightarrow> js_error + analysis) \<Rightarrow> json list \<Rightarrow> analysis" where
  "analyzeProductData tryBlock products =
     (case tryBlock products of
        Inr result \<Rightarrow> result
      | Inl error \<Rightarrow>
          \<lparr>priceRanges = \<lparr>min_price = 0, max_price = 0, average_price = 0\<rparr>,
           topRatedProducts = [], mostReviewedProducts = [], recommendations = []\<rparr>)"

subsection \<open>\<open>runProductComparison\<close> and \<open>analyzeProducts\<close>\<close>

datatype result_status = Running | Completed | Failed

record ProductComparisonResult =
  resultId :: string
  date :: nat
  website :: string
  category :: "string option"
  resultStatus :: result_status
  products :: "json list"
  analysis :: "analysis option"
  error :: "string option"

text \<open>
  The environment of a job: the engine, the two API keys, the network, the clock
  (\<open>Date.now()\<close>) and the \<open>try\<close> block of \<open>analyzeProductData\<close>.
\<close>

record env =
  engine :: runtime
  APIFY_API_TOKEN :: "string option"
  GEMINI_API_KEY :: "string option"
  network :: network
  Date_now :: nat
  analysisTry :: "json list \<Rightarrow> js_error + analysis"

text \<open>
  The state of a job: the calls of \<open>storage.set\<close> so far, in order, and the network
  state.  \<open>storage.set\<close> does not throw for these records (it catches the errors of the
  file system and falls back to the memory store); the record persisted under a key is
  the last one written under it.
\<close>

record job_state =
  writes :: "(string \<times> ProductComparisonResult) list"
  netState :: net_state

definition storage_set :: "string \<Rightarrow> ProductComparisonResult \<Rightarrow> job_state \<Rightarrow> job_state" where
  "storage_set key v js = js\<lparr>writes := writes js @ [(key, v)]\<rparr>"

definition persisted :: "job_state \<Rightarrow> string \<Rightarrow> ProductComparisonResult option" where
  "persisted js key = map_of (rev (writes js)) key"

text \<open>\<open>{...product, id: `product-${index}-${Date.now()}`, imageKey: `img-${index}-${Date.now()}`}\<close>\<close>

fun spread :: "json \<Rightarrow> (string \<times> json) list" where
  "spread (JObj kvs) = kvs"
| "spread (JArr xs) = zip (map string_of_nat [0..<length xs]) xs"
| "spread (JStr s) = zip (map string_of_nat [0..<length s]) (map (\<lambda>c. JStr [c]) s)"
| "spread v = []"

definition withIds :: "nat \<Rightarrow> nat \<times> json \<Rightarrow> json" where
  "withIds now p =
     (case p of (index, product) \<Rightarrow>
        JObj (AList.update ''imageKey''
                (JStr (''img-'' @ string_of_nat index @ ''-'' @ string_of_nat now))
                (AList.update ''id''
                   (JStr (''product-'' @ string_of_nat index @ ''-'' @ string_of_nat now))
                   (spread product))))"

text \<open>
  The \<open>try\<close> block of \<open>analyzeProducts\<close>.  The inner \<open>try\<close> around
  \<open>extractProductData\<close> falls back to the raw data (also when \<open>structuredProducts.length\<close>
  would be read from an absent result).
\<close>

definition analyzeProducts_try ::
  "env \<Rightarrow> string \<Rightarrow> string \<Rightarrow> string option \<Rightarrow> net_state
     \<Rightarrow> (js_error + ProductComparisonResult) \<times> net_state" where
  "analyzeProducts_try e ident site cat s =
     (case scrapeWebsite (engine e) (APIFY_API_TOKEN e) (network e) s of
        (rawData, s1) \<Rightarrow>
     (case extractProductData (engine e) (GEMINI_API_KEY e) (network e) s1 (Some rawData) of
        (extracted, s2) \<Rightarrow>
     (let structured =
            (case extracted of
               None \<Rightarrow> rawData
             | Some sp \<Rightarrow> if length sp = 0 \<and> length rawData > 0 then rawData else sp);
          withId = map (withIds (Date_now e)) (List.enumerate 0 structured);
          result = analyzeProductData (analysisTry e) withId
      in (Inr \<lparr>resultId = ident, date = Date_now e, website = site, category = cat,
               resultStatus = Completed, products = withId, analysis = Some result,
               error = None\<rparr>, s2))))"

definition failedResult :: "env \<Rightarrow> string \<Rightarrow> string \<Rightarrow> string option \<Rightarrow> js_error \<Rightarrow> ProductComparisonResult" where
  "failedResult e ident site cat err =
     \<lparr>resultId = ident, date = Date_now e, website = site, category = cat,
      resultStatus = Failed, products = [], analysis = None, error = Some (message err)\<rparr>"

definition analyzeProducts :: "env \<Rightarrow> string \<Rightarrow> string \<Rightarrow> string option \<Rightarrow> job_state \<Rightarrow> job_state" where
  "analyzeProducts e ident site cat js =
     (case analyzeProducts_try e ident site cat (netState js) of
        (Inr updatedResult, s') \<Rightarrow>
          storage_set (''product-comparison:'' @ ident) updatedResult (js\<lparr>netState := s'\<rparr>)
      | (Inl err, s') \<Rightarrow>
          storage_set (''product-comparison:'' @ ident) (failedResult e ident site cat err)
            (js\<lparr>netState := s'\<rparr>))"

text \<open>
  \<open>runProductComparison\<close>: \<open>uuid\<close> is the identifier \<open>uuidv4()\<close> draws, \<open>formWebsite\<close> and
  \<open>formCategory\<close> the two fields of the form.  The placeholder is written before the
  analysis starts; the analysis runs in the background and the state returned here is
  the state after it.
\<close>

definition runProductComparison ::
  "env \<Rightarrow> string \<Rightarrow> string option \<Rightarrow> string option \<Rightarrow> job_state \<Rightarrow> js_error + string \<times> job_state" where
  "runProductComparison e uuid formWebsite formCategory js =
     (case formWebsite of
        None \<Rightarrow> Inl (Error ''Failed to run product comparison: Website is required'')
      | Some site \<Rightarrow>
          if site = [] then Inl (Error ''Failed to run product comparison: Website is required'')
          else
            (let initialResult =
                   \<lparr>resultId = uuid, date = Date_now e, website = site, category = formCategory,
                    resultStatus = Running, products = [], analysis = None, error = None\<rparr>;
                 js1 = storage_set (''product-comparison:'' @ uuid) initialResult js
             in Inr (uuid, analyzeProducts e uuid site formCategory js1)))"

text \<open>
  What the poll-timeout scenario assumes of the responses: the start request is accepted
  (an \<open>ok\<close> response whose \<open>data.id\<close> can be read and printed), and a status
  response shows a run that has not ended (\<open>ok\<close>, with a \<open>data.status\<close> that can be
  read and printed and is none of the four final ones).
\<close>

definition startAccepted :: "runtime \<Rightarrow> response \<Rightarrow> bool" where
  "startAccepted rt resp =
     (ok resp \<and> \<not> isl (startedRun rt resp))"

definition stillRunning :: "runtime \<Rightarrow> response \<Rightarrow> bool" where
  "stillRunning rt resp =
     (ok resp \<and>
      (case runStatus rt resp of
         Inr st \<Rightarrow> st \<noteq> Some (JStr ''SUCCEEDED'') \<and> \<not> terminalFailure st
       | Inl e \<Rightarrow> False))"

text \<open>The invariant of a persisted record.\<close>

definition statusInvariant :: "ProductComparisonResult \<Rightarrow> bool" where
  "statusInvariant r =
     ((resultStatus r = Running \<longrightarrow> products r = [] \<and> analysis r = None)
      \<and> (resultStatus r = Completed \<longrightarrow> analysis r \<noteq> None)
      \<and> (resultStatus r = Failed \<longrightarrow> (case error r of Some m \<Rightarrow> m \<noteq> [] | None \<Rightarrow> False)))"

section \<open>Example inputs\<close>

text \<open>
  For the evaluations at concrete inputs: an environment whose \<open>JSON.parse\<close> is given on
  the strings of a table (and throws elsewhere), and a scraped site.
\<close>

definition exampleRuntime :: "(string \<times> json) list \<Rightarrow> runtime" where
  "exampleRuntime parses =
     \<lparr>hasFileSystemAccess = True, STORAGE_DIR = ''/app/.storage'',
      JSON_stringify = (\<lambda>v. ''{}''), JSON_parse = map_of parses,
      coercedPositive = (\<lambda>v. False)\<rparr>"

definition exampleSite :: WebsiteData where
  "exampleSite =
     \<lparr>url = ''https://example.com'', title = ''Example Shop'', description = ''Widgets'',
      siteKeywords = [''widgets''], headings = [], content = ''We sell widgets.'',
      links = [], images = [], lastScraped = 0\<rparr>"

text \<open>A scraper that accepts the run and then reports \<open>RUNNING\<close> at every poll, and a
  job environment around it.\<close>

definition pollingNetwork :: network where
  "pollingNetwork i =
     (if i = 0 then
        Inr \<lparr>ok = True, status = 201, statusText = ''Created'',
             body = ''{\"data\":{\"id\":\"run1\"}}''\<rparr>
      else
        Inr \<lparr>ok = True, status = 200, statusText = ''OK'',
             body = ''{\"data\":{\"status\":\"RUNNING\"}}''\<rparr>)"

definition pollingEnv :: env where
  "pollingEnv =
     \<lparr>engine = exampleRuntime
        [(''{\"data\":{\"id\":\"run1\"}}'', JObj [(''data'', JObj [(''id'', JStr ''run1'')])]),
         (''{\"data\":{\"status\":\"RUNNING\"}}'',
          JObj [(''data'', JObj [(''status'', JStr ''RUNNING'')])])],
      APIFY_API_TOKEN = Some ''apify-token'',
      GEMINI_API_KEY = Some ''gemini-key'',
      network = pollingNetwork,
      Date_now = 1700000000000,
      analysisTry = (\<lambda>ps. Inl (Error ''model unavailable''))\<rparr>"

definition freshJob :: job_state where
  "freshJob = \<lparr>writes = [], netState = \<lparr>calls = 0, sleeps = []\<rparr>\<rparr>"

text \<open>A scraper whose run succeeds at the third poll with one product, for a job without
  a key for the model.\<close>

definition succeedingNetwork :: network where
  "succeedingNetwork i =
     (if i = 0 then
        Inr \<lparr>ok = True, status = 201, statusText = ''Created'',
             body = ''{\"data\":{\"id\":\"run1\"}}''\<rparr>
      else if i < 3 then
        Inr \<lparr>ok = True, status = 200, statusText = ''OK'',
             body = ''{\"data\":{\"status\":\"RUNNING\"}}''\<rparr>
      else if i = 3 then
        Inr \<lparr>ok = True, status = 200, statusText = ''OK'',
             body = ''{\"data\":{\"status\":\"SUCCEEDED\"}}''\<rparr>
      else
        Inr \<lparr>ok = True, status = 200, statusText = ''OK'',
             body = ''[{\"name\":\"Widget\",\"price\":\"$19.99\"}]''\<rparr>)"

definition succeedingEnv :: env where
  "succeedingEnv =
     \<lparr>engine = exampleRuntime
        [(''{\"data\":{\"id\":\"run1\"}}'', JObj [(''data'', JObj [(''id'', JStr ''run1'')])]),
         (''{\"data\":{\"status\":\"RUNNING\"}}'',
          JObj [(''data'', JObj [(''status'', JStr ''RUNNING'')])]),
         (''{\"data\":{\"status\":\"SUCCEEDED\"}}'',
          JObj [(''data'', JObj [(''status'', JStr ''SUCCEEDED'')])]),
         (''[{\"name\":\"Widget\",\"price\":\"$19.99\"}]'',
          JArr [JObj [(''name'', JStr ''Widget''), (''price'', JStr ''$19.99'')]])],
      APIFY_API_TOKEN = Some ''apify-token'',
      GEMINI_API_KEY = None,
      network = succeedingNetwork,
      Date_now = 1700000000000,
      analysisTry = (\<lambda>ps. Inl (Error ''GEMINI_API_KEY environment variable is not set''))\<rparr>"

text \<open>
  An answer of the model with a table (and a line before it, a row of two columns and a
  row of four), the response that carries it, and the engine that parses the body of
  that response (\<open><answer>\<close> stands for the JSON text) to the object of the answer.
\<close>

definition tableAnswer :: string where
  "tableAnswer =
     ''Here are the products:'' @ CHR 0x0A #
     ''| Product Name | Price | Image URL |'' @ CHR 0x0A #
     ''| --- | --- | --- |'' @ CHR 0x0A #
     ''  | Widget  |  $19.99 | http://x/w.png |  '' @ CHR 0x0A #
     ''| half | row |'' @ CHR 0x0A #
     ''| Gadget | $5 | /img/g.png | 4.5 |''"

definition tableResponse :: response where
  "tableResponse = \<lparr>ok = True, status = 200, statusText = ''OK'', body = ''<answer>''\<rparr>"

definition tableRuntime :: runtime where
  "tableRuntime =
     exampleRuntime
       [(''<answer>'',
         JObj [(''candidates'',
                JArr [JObj [(''content'',
                            JObj [(''parts'', JArr [JObj [(''text'', JStr tableAnswer)]]),
                                  (''role'', JStr ''model'')]),
                           (''finishReason'', JStr ''STOP'')]]),
               (''modelVersion'', JStr ''gemini-1.5-flash'')])]"

text \<open>A process without a file system, and the empty store.\<close>

definition memoryRuntime :: runtime where
  "memoryRuntime = (exampleRuntime [(''{}'', JObj [])])\<lparr>hasFileSystemAccess := False\<rparr>"

definition emptyStore :: store where
  "emptyStore = \<lparr>memoryStore = [], files = []\<rparr>"

section \<open>Properties of the string functions\<close>

lemma startsWith_prefix: "startsWith s p \<longleftrightarrow> prefix p s"
  by (induction s p rule: startsWith.induct) auto

section \<open>Transport retry\<close>

declare fetchWithRetry.simps [simp del]

lemma fetchWithRetry_trace:
  "0 \<le> retries \<Longrightarrow> fetchWithRetry net retries backoff s = (res, s') \<Longrightarrow>
   (\<exists>n. calls s' = calls s + Suc n \<and> int n \<le> retries
      \<and> res = net (calls s + n)
      \<and> (\<forall>i<n. isl (net (calls s + i)))
      \<and> (isl res \<longrightarrow> int n = retries)
      \<and> sleeps s' = sleeps s @ map (\<lambda>i. backoff * 2 ^ i) [0..<n])"
proof (induction net retries backoff s arbitrary: res s' rule: fetchWithRetry.induct)
  case (1 net retries backoff s)
  note eq = "1.prems"(2) [unfolded fetchWithRetry.simps [of net retries backoff s]]
  show ?case
  proof (cases "net (calls s)")
    case (Inr resp)
    with eq have "res = Inr resp" "s' = s\<lparr>calls := calls s + 1\<rparr>"
      by simp_all
    with Inr "1.prems"(1) show ?thesis by (intro exI [of _ 0]) simp
  next
    case (Inl err)
    show ?thesis
    proof (cases "retries > 0")
      case False
      with Inl eq "1.prems"(1)
      have "res = Inl err" "s' = s\<lparr>calls := calls s + 1\<rparr>" "retries = 0"
        by simp_all
      with Inl show ?thesis by (intro exI [of _ 0]) simp
    next
      case True
      let ?s1 = "s\<lparr>calls := calls s + 1, sleeps := sleeps s @ [backoff]\<rparr>"
      from True Inl eq
      have rec: "fetchWithRetry net (retries - 1) (backoff * 2) ?s1 = (res, s')"
        by simp
      from True have "0 \<le> retries - 1" by simp
      from "1.IH" [OF Inl True this rec] obtain n where n:
        "calls s' = calls ?s1 + Suc n" "int n \<le> retries - 1" "res = net (calls ?s1 + n)"
        "\<forall>i<n. isl (net (calls ?s1 + i))" "isl res \<longrightarrow> int n = retries - 1"
        "sleeps s' = sleeps ?s1 @ map (\<lambda>i. (backoff * 2) * 2 ^ i) [0..<n]"
        by blast
      have earlier: "\<forall>i<Suc n. isl (net (calls s + i))"
      proof (intro allI impI)
        fix i assume "i < Suc n"
        show "isl (net (calls s + i))"
        proof (cases i)
          case 0
          with Inl show ?thesis by simp
        next
          case (Suc j)
          with \<open>i < Suc n\<close> n(4) have "isl (net (calls ?s1 + j))" by simp
          with Suc show ?thesis by simp
        qed
      qed
      have delays: "map (\<lambda>i. backoff * 2 ^ i) [0..<Suc n]
                      = backoff # map (\<lambda>i. (backoff * 2) * 2 ^ i) [0..<n]"
        by (simp add: upt_conv_Cons map_Suc_upt [symmetric] del: upt_Suc)
      show ?thesis
        apply (intro exI [of _ "Suc n"])
        using n earlier delays by (auto simp del: upt_Suc)
    qed
  qed
qed

text \<open>
  Claim C8.  A call of \<open>fetchWithRetry\<close> with a retry count \<open>retries \<ge> 0\<close> makes
  \<open>n + 1\<close> calls of \<open>fetch\<close> with \<open>n \<le> retries\<close>, so at most \<open>retries + 1\<close> (4 with the
  default 3).  Every attempt before the last one threw; the result is the outcome of the
  last attempt, so a response is returned as soon as \<open>fetch\<close> resolves, whatever its
  HTTP status; an error is the result only when \<open>n = retries\<close>, that is when the final
  attempt threw, and it is that attempt's error.  Before retry \<open>i\<close> the function waited
  \<open>backoff * 2 ^ i\<close>: the delay doubles at every retry.  With the defaults of the
  signature a call makes between one and four attempts.
\<close>

theorem fetchWithRetry_retry_semantics:
  assumes "0 \<le> retries" and "fetchWithRetry net retries backoff s = (res, s')"
  shows "(\<exists>n. calls s' = calls s + n + 1 \<and> int n + 1 \<le> retries + 1
            \<and> (\<forall>i<n. isl (net (calls s + i)))
            \<and> res = net (calls s + n)
            \<and> (isl res \<longrightarrow> int n = retries)
            \<and> sleeps s' = sleeps s @ map (\<lambda>i. backoff * 2 ^ i) [0..<n])
         \<and> calls s < calls (snd (fetchWithRetry_default net s))
         \<and> calls (snd (fetchWithRetry_default net s)) \<le> calls s + 4"
proof -
  obtain res0 s0 where d: "fetchWithRetry net 3 1000 s = (res0, s0)"
    by (cases "fetchWithRetry net 3 1000 s")
  from fetchWithRetry_trace [OF _ d] obtain n where "calls s0 = calls s + Suc n" "int n \<le> 3"
    by auto
  with d have "calls s < calls (snd (fetchWithRetry_default net s))"
    "calls (snd (fetchWithRetry_default net s)) \<le> calls s + 4"
    by (simp_all add: fetchWithRetry_default_def)
  with fetchWithRetry_trace [OF assms] show ?thesis by auto
qed

theorem fetchWithRetry_retry_semantics_witness:
  "fetchWithRetry
     (\<lambda>i. if i < 2 then Inl (Error ''ECONNRESET'')
          else Inr \<lparr>ok = False, status = 503, statusText = ''Service Unavailable'', body = []\<rparr>)
     3 1000 \<lparr>calls = 0, sleeps = []\<rparr>
   = (Inr \<lparr>ok = False, status = 503, statusText = ''Service Unavailable'', body = []\<rparr>,
      \<lparr>calls = 3, sleeps = [1000, 2000]\<rparr>)
   \<and> (\<exists>n. (3::nat) = 0 + n + 1 \<and> int n + 1 \<le> 3 + 1
         \<and> [1000, 2000] = [] @ map (\<lambda>i. (1000::int) * 2 ^ i) [0..<n])"
proof -
  let ?resp = "\<lparr>ok = False, status = 503, statusText = ''Service Unavailable'', body = []\<rparr>"
  let ?net = "\<lambda>i::nat. if i < 2 then Inl (Error ''ECONNRESET'') else Inr ?resp"
  have run: "fetchWithRetry ?net 3 1000 \<lparr>calls = 0, sleeps = []\<rparr>
               = (Inr ?resp, \<lparr>calls = 3, sleeps = [1000, 2000]\<rparr>)"
    by (simp add: fetchWithRetry.simps)
  have "(0::int) \<le> 3" by simp
  from fetchWithRetry_retry_semantics [OF this run] show ?thesis
    using run by auto
qed

section \<open>Key sanitization\<close>

lemma set_replace_all: "set (replace_all s c r) \<subseteq> (set s - {c}) \<union> set r"
  by (induction s) (auto simp: replace_all_def)

lemma set_remove_scheme: "set (remove_scheme s) \<subseteq> set s"
proof (induction s rule: remove_scheme.induct)
  case 1
  then show ?case by simp
next
  case (2 c cs)
  then show ?case by (auto simp del: startsWith.simps dest: in_set_dropD)
qed

lemma sanitizeKey_chars:
  "set (sanitizeKey key)
     \<inter> {CHR '':'', CHR ''/'', CHR 0x5C, CHR ''?'', CHR ''&'', CHR ''='', CHR ''.''} = {}"
proof -
  define k1 where "k1 = replace_all key CHR '':'' ''_colon_''"
  define k2 where "k2 = replace_all k1 CHR ''/'' ''_slash_''"
  define k3 where "k3 = replace_all k2 CHR 0x5C ''_backslash_''"
  define k4 where "k4 = replace_all k3 CHR ''?'' ''_question_''"
  define k5 where "k5 = replace_all k4 CHR ''&'' ''_amp_''"
  define k6 where "k6 = replace_all k5 CHR ''='' ''_equals_''"
  define k7 where "k7 = replace_all k6 CHR ''.'' ''_dot_''"
  have 1: "CHR '':'' \<notin> set k1"
    using set_replace_all [of key "CHR '':''" "''_colon_''"] by (auto simp: k1_def)
  have 2: "set k2 \<inter> {CHR '':'', CHR ''/''} = {}"
    using 1 set_replace_all [of k1 "CHR ''/''" "''_slash_''"] by (auto simp: k2_def)
  have 3: "set k3 \<inter> {CHR '':'', CHR ''/'', CHR 0x5C} = {}"
    using 2 set_replace_all [of k2 "CHR 0x5C" "''_backslash_''"] by (auto simp: k3_def)
  have 4: "set k4 \<inter> {CHR '':'', CHR ''/'', CHR 0x5C, CHR ''?''} = {}"
    using 3 set_replace_all [of k3 "CHR ''?''" "''_question_''"] by (auto simp: k4_def)
  have 5: "set k5 \<inter> {CHR '':'', CHR ''/'', CHR 0x5C, CHR ''?'', CHR ''&''} = {}"
    using 4 set_replace_all [of k4 "CHR ''&''" "''_amp_''"] by (auto simp: k5_def)
  have 6: "set k6 \<inter> {CHR '':'', CHR ''/'', CHR 0x5C, CHR ''?'', CHR ''&'', CHR ''=''} = {}"
    using 5 set_replace_all [of k5 "CHR ''=''" "''_equals_''"] by (auto simp: k6_def)
  have 7: "set k7 \<inter> {CHR '':'', CHR ''/'', CHR 0x5C, CHR ''?'', CHR ''&'', CHR ''='', CHR ''.''} = {}"
    using 6 set_replace_all [of k6 "CHR ''.''" "''_dot_''"] by (auto simp: k7_def)
  have 8: "set (remove_scheme k7)
             \<inter> {CHR '':'', CHR ''/'', CHR 0x5C, CHR ''?'', CHR ''&'', CHR ''='', CHR ''.''} = {}"
    using 7 set_remove_scheme [of k7] by auto
  have "sanitizeKey key
          = map (\<lambda>c. if invalid_file_char c then CHR ''_'' else c) (remove_scheme k7)"
    by (simp add: sanitizeKey_def k1_def k2_def k3_def k4_def k5_def k6_def k7_def)
  then show ?thesis using 8 by auto
qed

lemma path_join_segment:
  assumes "\<forall>c\<in>set name. \<not> is_sep c"
  shows "basename (path_join dir name) = name" and "dirname (path_join dir name) = dir"
proof -
  have r: "rev (path_join dir name) = rev name @ CHR ''/'' # rev dir"
    by (simp add: path_join_def)
  have t: "takeWhile (\<lambda>c. \<not> is_sep c) (rev name @ CHR ''/'' # rev dir) = rev name"
    using assms by (simp add: takeWhile_tail is_sep_def)
  have d: "dropWhile (\<lambda>c. \<not> is_sep c) (rev name @ CHR ''/'' # rev dir) = CHR ''/'' # rev dir"
    using assms by (simp add: dropWhile_append3 is_sep_def)
  show "basename (path_join dir name) = name" by (simp add: basename_def r t)
  show "dirname (path_join dir name) = dir" by (simp add: dirname_def r d)
qed

text \<open>
  Claim C9.  The sanitized key contains none of the characters \<open>: / \ ? & = .\<close>; the path
  \<open>storage.set\<close> writes, the storage directory joined with the sanitized key and
  \<open>.json\<close>, has the storage directory as its directory part and that file name as its
  last segment, so the file lies directly inside the storage directory; on a store with
  a file system, that path is the one file \<open>storage.set\<close> creates; and equal keys give the
  same path.
\<close>

theorem sanitizeKey_confined:
  "(\<forall>c \<in> set (sanitizeKey key).
      c \<notin> {CHR '':'', CHR ''/'', CHR 0x5C, CHR ''?'', CHR ''&'', CHR ''='', CHR ''.''})
   \<and> dirname (filePath rt (sanitizeKey key)) = STORAGE_DIR rt
   \<and> basename (filePath rt (sanitizeKey key)) = sanitizeKey key @ ''.json''
   \<and> (hasFileSystemAccess rt \<longrightarrow>
        map fst (files (set_item rt True key v \<lparr>memoryStore = [], files = []\<rparr>))
          = [filePath rt (sanitizeKey key)])
   \<and> (key = key' \<longrightarrow> filePath rt (sanitizeKey key) = filePath rt (sanitizeKey key'))"
proof -
  have chars: "\<forall>c \<in> set (sanitizeKey key).
      c \<notin> {CHR '':'', CHR ''/'', CHR 0x5C, CHR ''?'', CHR ''&'', CHR ''='', CHR ''.''}"
    using sanitizeKey_chars [of key] by auto
  then have nosep: "\<forall>c\<in>set (sanitizeKey key @ ''.json''). \<not> is_sep c"
    by (auto simp: is_sep_def)
  show ?thesis
    using chars path_join_segment [OF nosep, of "STORAGE_DIR rt"]
    by (simp add: filePath_def set_item_def)
qed

theorem sanitizeKey_confined_witness:
  "sanitizeKey ''product-comparison:../../etc/passwd''
     = ''product-comparison_colon__dot__dot__slash__dot__dot__slash_etc_slash_passwd''
   \<and> set (sanitizeKey ''product-comparison:../../etc/passwd'')
        \<inter> {CHR '':'', CHR ''/'', CHR 0x5C, CHR ''?'', CHR ''&'', CHR ''='', CHR ''.''} = {}
   \<and> dirname (filePath
        \<lparr>hasFileSystemAccess = True, STORAGE_DIR = ''/app/.storage'',
         JSON_stringify = (\<lambda>v. ''{}''), JSON_parse = (\<lambda>s. None),
      coercedPositive = (\<lambda>v. False)\<rparr>
        (sanitizeKey ''product-comparison:../../etc/passwd'')) = ''/app/.storage''
   \<and> map fst (files (set_item
        \<lparr>hasFileSystemAccess = True, STORAGE_DIR = ''/app/.storage'',
         JSON_stringify = (\<lambda>v. ''{}''), JSON_parse = (\<lambda>s. None),
      coercedPositive = (\<lambda>v. False)\<rparr>
        True ''product-comparison:../../etc/passwd'' (JObj []) \<lparr>memoryStore = [], files = []\<rparr>))
       = [''/app/.storage/product-comparison_colon__dot__dot__slash__dot__dot__slash_etc_slash_passwd.json'']"
proof -
  let ?key = "''product-comparison:../../etc/passwd''"
  let ?rt = "\<lparr>hasFileSystemAccess = True, STORAGE_DIR = ''/app/.storage'',
              JSON_stringify = (\<lambda>v. ''{}''), JSON_parse = (\<lambda>s. None),
      coercedPositive = (\<lambda>v. False)\<rparr>"
  have e: "sanitizeKey ?key
             = ''product-comparison_colon__dot__dot__slash__dot__dot__slash_etc_slash_passwd''"
    by code_simp
  have p: "filePath ?rt (sanitizeKey ?key)
             = ''/app/.storage/product-comparison_colon__dot__dot__slash__dot__dot__slash_etc_slash_passwd.json''"
    by (simp add: e filePath_def path_join_def)
  from sanitizeKey_confined [of ?key ?rt "JObj []" ?key]
  have "set (sanitizeKey ?key)
          \<inter> {CHR '':'', CHR ''/'', CHR 0x5C, CHR ''?'', CHR ''&'', CHR ''='', CHR ''.''} = {}
        \<and> dirname (filePath ?rt (sanitizeKey ?key)) = ''/app/.storage''
        \<and> map fst (files (set_item ?rt True ?key (JObj []) \<lparr>memoryStore = [], files = []\<rparr>))
            = [filePath ?rt (sanitizeKey ?key)]"
    by auto
  then show ?thesis using e p by simp
qed

section \<open>Listing keys\<close>

lemma keys_memory_set:
  "set (keys_memory pfx ks acc)
     = set acc \<union> {k \<in> set ks. startsWith k pfx \<and> \<not> startsWith k ''key_map:''}"
  by (induction ks arbitrary: acc) (auto simp del: startsWith.simps)

lemma keys_memory_distinct: "distinct acc \<Longrightarrow> distinct (keys_memory pfx ks acc)"
  by (induction ks arbitrary: acc) (auto simp del: startsWith.simps)

lemma ownEntries_set: "set (ownEntries m) = set m"
  by (auto simp: ownEntries_def)

lemma keys_of_set_item:
  assumes "\<not> hasFileSystemAccess rt" and "key \<noteq> ''__proto__''"
  shows "key \<in> set (keys_of rt dir (set_item rt io key v st) pfx)
           \<longleftrightarrow> startsWith key pfx \<and> \<not> startsWith key ''key_map:''"
proof -
  have "key \<in> fst ` set (memoryStore (set_item rt io key v st))"
    using assms by (simp add: set_item_def write_prop_def dom_update)
  then show ?thesis
    using assms(1)
    by (auto simp: keys_of_def keys_memory_set ownEntries_set simp del: startsWith.simps)
qed

text \<open>
  Claim C10, amended.  Without a file system, \<open>storage.keys(prefix)\<close> returns exactly the
  keys of the memory store that start with the prefix and do not themselves start with
  \<open>key_map:\<close>, each once.  In particular a key that has just been set is listed if
  and only if it starts with the prefix and not with \<open>key_map:\<close>: a caller's key that
  begins with \<open>key_map:\<close> is stored in the map and never listed.
\<close>

theorem keys_memory_backend:
  assumes "\<not> hasFileSystemAccess rt"
  shows "set (keys_of rt dir st pfx)
           = {k \<in> fst ` set (memoryStore st). startsWith k pfx \<and> \<not> startsWith k ''key_map:''}
         \<and> distinct (keys_of rt dir st pfx)
         \<and> (\<forall>k \<in> set (keys_of rt dir st pfx). \<not> startsWith k ''key_map:'')
         \<and> (key \<noteq> ''__proto__'' \<longrightarrow>
              (key \<in> set (keys_of rt dir (set_item rt io key v st) pfx)
                 \<longleftrightarrow> startsWith key pfx \<and> \<not> startsWith key ''key_map:''))
         \<and> (key \<noteq> ''__proto__'' \<and> startsWith key ''key_map:'' \<longrightarrow>
              key \<in> fst ` set (memoryStore (set_item rt io key v st))
              \<and> key \<notin> set (keys_of rt dir (set_item rt io key v st) pfx))"
proof -
  have 1: "set (keys_of rt dir st pfx)
           = {k \<in> fst ` set (memoryStore st). startsWith k pfx \<and> \<not> startsWith k ''key_map:''}"
    "distinct (keys_of rt dir st pfx)"
    "\<forall>k \<in> set (keys_of rt dir st pfx). \<not> startsWith k ''key_map:''"
    using assms
    by (auto simp: keys_of_def keys_memory_set keys_memory_distinct ownEntries_set
        simp del: startsWith.simps)
  have 2: "key \<noteq> ''__proto__'' \<longrightarrow>
              (key \<in> set (keys_of rt dir (set_item rt io key v st) pfx)
                 \<longleftrightarrow> startsWith key pfx \<and> \<not> startsWith key ''key_map:'')"
    using keys_of_set_item [OF assms] by blast
  have 3: "key \<noteq> ''__proto__'' \<and> startsWith key ''key_map:'' \<longrightarrow>
              key \<in> fst ` set (memoryStore (set_item rt io key v st))
              \<and> key \<notin> set (keys_of rt dir (set_item rt io key v st) pfx)"
    using keys_of_set_item [OF assms, of key dir io v st pfx] assms
    by (simp add: set_item_def write_prop_def dom_update del: startsWith.simps)
  from 1 2 3 show ?thesis by blast
qed

theorem keys_memory_backend_witness:
  "keys_of memoryRuntime None
     \<lparr>memoryStore = [(''product-comparison:1'', ''{}''), (''key_map:website:1'', ''x''),
                     (''website:1'', ''{}''), (''7'', ''seven''), (''product-comparison:2'', ''{}'')],
      files = []\<rparr>
     []
   = [''7'', ''product-comparison:1'', ''website:1'', ''product-comparison:2'']
   \<and> distinct (keys_of memoryRuntime None
     \<lparr>memoryStore = [(''product-comparison:1'', ''{}''), (''key_map:website:1'', ''x''),
                     (''website:1'', ''{}''), (''7'', ''seven''), (''product-comparison:2'', ''{}'')],
      files = []\<rparr>
     [])
   \<and> ''key_map:website:1'' \<notin> set (keys_of memoryRuntime None
           (set_item memoryRuntime True ''key_map:website:1'' (JStr ''x'') emptyStore) ''key'')
   \<and> keys_of memoryRuntime None
           (set_item memoryRuntime True ''website:1'' (JObj []) emptyStore) ''web''
       = [''website:1'']"
proof -
  let ?st = "\<lparr>memoryStore = [(''product-comparison:1'', ''{}''), (''key_map:website:1'', ''x''),
                (''website:1'', ''{}''), (''7'', ''seven''), (''product-comparison:2'', ''{}'')],
              files = []\<rparr>"
  have m: "\<not> hasFileSystemAccess memoryRuntime"
    by (simp add: memoryRuntime_def exampleRuntime_def)
  have e: "keys_of memoryRuntime None ?st []
             = [''7'', ''product-comparison:1'', ''website:1'', ''product-comparison:2'']"
    by (simp add: keys_of_def m ownEntries_def is_index_def is_digit_def index_value_def
        digit_value_def)
  from keys_memory_backend
         [where rt = memoryRuntime and dir = None and st = ?st and pfx = "[]", OF m]
  have d: "distinct (keys_of memoryRuntime None ?st [])" by blast
  have k: "''key_map:website:1'' \<noteq> ''__proto__'' \<and> startsWith ''key_map:website:1'' ''key_map:''"
    by simp
  from keys_memory_backend
         [where rt = memoryRuntime and key = "''key_map:website:1''" and dir = None and io = True
            and v = "JStr ''x''" and st = emptyStore and pfx = "''key''", OF m] k
  have h: "''key_map:website:1'' \<notin> set (keys_of memoryRuntime None
           (set_item memoryRuntime True ''key_map:website:1'' (JStr ''x'') emptyStore) ''key'')"
    by blast
  have w: "keys_of memoryRuntime None
           (set_item memoryRuntime True ''website:1'' (JObj []) emptyStore) ''web''
       = [''website:1'']"
    by (simp add: keys_of_def m set_item_def write_prop_def emptyStore_def ownEntries_def
        is_index_def is_digit_def)
  from e d h w show ?thesis by (intro conjI)
qed

text \<open>
  Claim C10 as stated fails: without a file system \<open>storage.set\<close> writes no bookkeeping
  entry, so every key of the map is a caller's key.  The key \<open>key_map:a\<close> is stored and
  read back by \<open>storage.get\<close>, it starts with the prefix \<open>key_map:\<close> and with the
  empty prefix, and \<open>storage.keys\<close> returns the empty list for both.
\<close>

theorem keys_hides_caller_key:
  "get_item memoryRuntime True
       (set_item memoryRuntime True ''key_map:a'' (JObj []) emptyStore) ''key_map:a''
     = Inr (Parsed (JObj []))
   \<and> map fst (memoryStore (set_item memoryRuntime True ''key_map:a'' (JObj []) emptyStore))
       = [''key_map:a'']
   \<and> startsWith ''key_map:a'' ''key_map:''
   \<and> keys_of memoryRuntime None
        (set_item memoryRuntime True ''key_map:a'' (JObj []) emptyStore) ''key_map:'' = []
   \<and> keys_of memoryRuntime None
        (set_item memoryRuntime True ''key_map:a'' (JObj []) emptyStore) [] = []"
proof -
  have m: "\<not> hasFileSystemAccess memoryRuntime"
    by (simp add: memoryRuntime_def exampleRuntime_def)
  have s: "set_item memoryRuntime True ''key_map:a'' (JObj []) emptyStore
             = \<lparr>memoryStore = [(''key_map:a'', ''{}'')], files = []\<rparr>"
    by (simp add: set_item_def m write_prop_def emptyStore_def stringValue_def memoryRuntime_def
        exampleRuntime_def)
  have g: "get_item memoryRuntime True \<lparr>memoryStore = [(''key_map:a'', ''{}'')], files = []\<rparr>
             ''key_map:a'' = Inr (Parsed (JObj []))"
    by (simp add: get_item_def m get_memory_def read_prop_def memoryRuntime_def exampleRuntime_def)
  have k: "keys_of memoryRuntime None \<lparr>memoryStore = [(''key_map:a'', ''{}'')], files = []\<rparr>
             ''key_map:'' = []"
    "keys_of memoryRuntime None \<lparr>memoryStore = [(''key_map:a'', ''{}'')], files = []\<rparr> [] = []"
    by (simp_all add: keys_of_def m ownEntries_def is_index_def is_digit_def)
  show ?thesis unfolding s using g k by simp
qed

section \<open>Splitting, trimming and searching\<close>

lemma endsWith_suffix: "endsWith s p \<longleftrightarrow> suffix p s"
  by (simp add: endsWith_def startsWith_prefix suffix_to_prefix)

lemma includesStr_sublist: "includesStr s p \<longleftrightarrow> sublist p s"
  by (induction s) (auto simp: startsWith_prefix sublist_Cons_right simp del: startsWith.simps)

lemma trim_subset: "set (trim s) \<subseteq> set s"
proof -
  have "set (dropWhile is_ws (rev (dropWhile is_ws s))) \<subseteq> set (rev (dropWhile is_ws s))"
    by (rule set_dropWhileD [THEN subsetI]) 
  also have "\<dots> \<subseteq> set s" using set_dropWhileD [of _ is_ws s] by auto
  finally show ?thesis by (simp add: trim_def)
qed

lemma trim_ends:
  assumes "trim s \<noteq> []"
  shows "\<not> is_ws (hd (trim s))" and "\<not> is_ws (last (trim s))"
proof -
  let ?a = "dropWhile is_ws s"
  let ?b = "dropWhile is_ws (rev ?a)"
  from assms have b: "?b \<noteq> []" by (simp add: trim_def)
  then have "\<not> is_ws (hd ?b)" by (rule hd_dropWhile)
  then show "\<not> is_ws (last (trim s))" using b by (simp add: trim_def last_rev)
  have a: "?a \<noteq> []"
  proof
    assume e: "?a = []"
    have "?b = []" unfolding e by simp
    with b show False by simp
  qed
  then have ha: "\<not> is_ws (hd ?a)" by (rule hd_dropWhile)
  have "hd (rev ?b) = hd ?a"
  proof -
    have "suffix ?b (rev ?a)" by (rule suffix_dropWhile)
    then obtain pre where "rev ?a = pre @ ?b" by (auto simp: suffix_def)
    then have "?a = rev ?b @ rev pre" by (metis rev_append rev_rev_ident)
    with b show ?thesis by (metis hd_append2 rev_is_Nil_conv)
  qed
  with ha show "\<not> is_ws (hd (trim s))" by (simp add: trim_def)
qed

lemma split_nonempty: "split s c \<noteq> []"
  by (induction s) (auto split: list.splits)

lemma split_no_sep: "w \<in> set (split s c) \<Longrightarrow> c \<notin> set w"
proof (induction s arbitrary: w)
  case Nil
  then show ?case by simp
next
  case (Cons x s)
  show ?case
  proof (cases "x = c")
    case True
    with Cons show ?thesis by auto
  next
    case False
    obtain y ys where y: "split s c = y # ys"
      using split_nonempty [of s c] by (cases "split s c") auto
    with False Cons.prems have "w = x # y \<or> w \<in> set ys" by auto
    with Cons.IH y False show ?thesis by auto
  qed
qed

lemma split_single: "c \<notin> set s \<Longrightarrow> split s c = [s]"
  by (induction s) auto

lemma split_append: "c \<notin> set a \<Longrightarrow> split (a @ c # b) c = a # split b c"
  by (induction a) auto

lemma join_Cons: "join ((x # w) # ws) sep = x # join (w # ws) sep"
  by (cases ws) auto

lemma join_split: "join (split s c) [c] = s"
proof (induction s)
  case Nil
  then show ?case by simp
next
  case (Cons x s)
  obtain y ys where y: "split s c = y # ys"
    using split_nonempty [of s c] by (cases "split s c") auto
  with Cons show ?case by (auto simp: join_Cons)
qed

lemma trim_parts:
  "\<exists>a b. s = a @ trim s @ b \<and> list_all is_ws a \<and> list_all is_ws b"
proof -
  let ?d = "dropWhile is_ws s"
  have 1: "s = takeWhile is_ws s @ ?d" by simp
  have "rev (takeWhile is_ws (rev ?d) @ dropWhile is_ws (rev ?d)) = ?d"
    by (simp only: takeWhile_dropWhile_id rev_rev_ident)
  then have "rev (dropWhile is_ws (rev ?d)) @ rev (takeWhile is_ws (rev ?d)) = ?d"
    by (simp only: rev_append)
  then have 2: "?d = trim s @ rev (takeWhile is_ws (rev ?d))"
    by (simp only: trim_def)
  have a: "list_all is_ws (takeWhile is_ws s)"
    by (simp add: list_all_iff) (meson set_takeWhileD)
  have b: "list_all is_ws (rev (takeWhile is_ws (rev ?d)))"
    by (simp add: list_all_iff) (meson set_takeWhileD)
  from 1 2 have "s = takeWhile is_ws s @ trim s @ rev (takeWhile is_ws (rev ?d))" by metis
  with a b show ?thesis by blast
qed

lemma columns_props:
  assumes "col \<in> set (columns row)"
  shows "col \<in> trim ` set (split row CHR ''|'')" "col \<noteq> []" "CHR ''|'' \<notin> set col"
    "\<not> is_ws (hd col)" "\<not> is_ws (last col)"
proof -
  from assms obtain w where w: "w \<in> set (split row CHR ''|'')" "col = trim w" "col \<noteq> []"
    by (auto simp: columns_def)
  show "col \<noteq> []" by fact
  from w show "col \<in> trim ` set (split row CHR ''|'')" by auto
  from split_no_sep [OF w(1)] trim_subset [of w] w(2) show "CHR ''|'' \<notin> set col" by auto
  from trim_ends [of w] w show "\<not> is_ws (hd col)" "\<not> is_ws (last col)" by auto
qed

lemma isTableRow_iff:
  "isTableRow row \<longleftrightarrow>
     prefix ''|'' row \<and> suffix ''|'' row \<and> \<not> sublist ''---'' row \<and> \<not> sublist ''Product Name'' row"
  by (simp add: isTableRow_def startsWith_prefix endsWith_suffix includesStr_sublist
      del: startsWith.simps)

lemma tableRows_iff:
  "row \<in> set (tableRows text) \<longleftrightarrow>
     row \<in> trim ` set (split text CHR 0x0A) \<and> prefix ''|'' row \<and> suffix ''|'' row
     \<and> \<not> sublist ''---'' row \<and> \<not> sublist ''Product Name'' row"
  by (auto simp: tableRows_def isTableRow_iff)

lemma structuredProducts_eq:
  "structuredProducts text =
     map (\<lambda>row. productEntry (columns row))
       (filter (\<lambda>row. 3 \<le> length (columns row)) (tableRows text))"
proof -
  have 1: "(\<lambda>row. productOfRow row \<noteq> None) = (\<lambda>row. 3 \<le> length (columns row))"
    by (auto simp: productOfRow_def Let_def)
  show ?thesis
    unfolding structuredProducts_def List.map_filter_def 1
    by (rule map_cong) (auto simp: productOfRow_def Let_def)
qed

lemma tableRows_four_lines:
  assumes "CHR 0x0A \<notin> set h" "CHR 0x0A \<notin> set sep" "CHR 0x0A \<notin> set r1" "CHR 0x0A \<notin> set r2"
  shows "tableRows (h @ CHR 0x0A # sep @ CHR 0x0A # r1 @ CHR 0x0A # r2)
           = filter isTableRow [trim h, trim sep, trim r1, trim r2]"
  using assms by (simp add: tableRows_def split_append split_single)

lemma responseText_wellformed:
  "responseText (JObj [(''candidates'',
      JArr [JObj [(''content'', JObj [(''parts'', JArr [JObj [(''text'', JStr t)]])])]])])
   = Inr (Some (structuredProducts t))"
  by (simp add: responseText_def andThen_def)

section \<open>The table of the model's answer\<close>

lemma responseText_answer:
  assumes "map_of obj ''candidates'' = Some (JArr (JObj candidate # candidates))"
    and "map_of candidate ''content'' = Some (JObj cont)"
    and "map_of cont ''parts'' = Some (JArr (JObj part # parts))"
    and "map_of part ''text'' = Some (JStr tx)"
  shows "responseText (JObj obj) = Inr (Some (structuredProducts tx))"
  using assms by (simp add: responseText_def andThen_def)

lemma extractProductData_answer:
  assumes "key \<noteq> None" "key \<noteq> Some []" "rawData = Some raw" "raw \<noteq> []"
    and "fst (fetchWithRetry net 3 1000 s) = Inr resp" "ok resp"
    and "JSON_parse rt (body resp) = Some data"
    and "responseText data = Inr (Some ps)"
  shows "fst (extractProductData rt key net s rawData) = Some (if ps = [] then raw else ps)"
  using assms
  by (auto simp: extractProductData_def safeJsonParse_def split: prod.splits)

text \<open>
  Claim C1.  When the request is answered by an \<open>ok\<close> response whose parsed body
  carries a text at \<open>candidates[0].content.parts[0].text\<close>, \<open>extractProductData\<close>
  returns the entries of the table of that text (and the raw data when the table gives
  no entry).  The entries are one object \<open>{name, price, imageUrl, rating: 0, reviews: 0,
  url: ""}\<close> from the first three columns of each kept row of at least three columns,
  in order.  The kept rows are exactly the trimmed lines of the text that begin and end
  with a pipe and contain neither \<open>---\<close> nor \<open>Product Name\<close>, in order; the columns
  of a row are the trimmed, non-empty pieces between its pipes, in order, so no column
  contains a pipe or starts or ends with white space.  Here the pieces of a string
  between separators join back to the string and contain no separator, and trimming
  removes white space at both ends and nothing else.  In particular an answer of a
  header line, a separator line and two data rows of three columns gives exactly the
  two entries of the data rows.
\<close>

theorem extractProductData_table:
  "(key \<noteq> None \<and> key \<noteq> Some [] \<and> rawData = Some raw \<and> raw \<noteq> []
      \<and> fst (fetchWithRetry net 3 1000 s) = Inr resp \<and> ok resp
      \<and> JSON_parse rt (body resp) = Some (JObj obj)
      \<and> map_of obj ''candidates'' = Some (JArr (JObj candidate # candidates))
      \<and> map_of candidate ''content'' = Some (JObj cont)
      \<and> map_of cont ''parts'' = Some (JArr (JObj part # parts))
      \<and> map_of part ''text'' = Some (JStr tx)
    \<longrightarrow> fst (extractProductData rt key net s rawData)
          = Some (if structuredProducts tx = [] then raw else structuredProducts tx))
   \<and> structuredProducts tx
        = map (\<lambda>row. productEntry (columns row))
            (filter (\<lambda>row. 3 \<le> length (columns row)) (tableRows tx))
   \<and> productEntry cols
        = JObj [(''name'', JStr (cols ! 0)), (''price'', JStr (cols ! 1)),
                (''imageUrl'', JStr (cols ! 2)), (''rating'', JNum 0),
                (''reviews'', JNum 0), (''url'', JStr [])]
   \<and> tableRows tx
        = filter (\<lambda>row. prefix ''|'' row \<and> suffix ''|'' row
                         \<and> \<not> sublist ''---'' row \<and> \<not> sublist ''Product Name'' row)
            (map trim (split tx CHR 0x0A))
   \<and> columns row = filter (\<lambda>col. col \<noteq> []) (map trim (split row CHR ''|''))
   \<and> join (split str sep) [sep] = str
   \<and> (\<forall>piece \<in> set (split str sep). sep \<notin> set piece)
   \<and> (\<exists>a b. str = a @ trim str @ b \<and> list_all is_ws a \<and> list_all is_ws b)
   \<and> (trim str \<noteq> [] \<longrightarrow> \<not> is_ws (hd (trim str)) \<and> \<not> is_ws (last (trim str)))
   \<and> (\<forall>row. row \<in> set (tableRows tx) \<longleftrightarrow>
         row \<in> trim ` set (split tx CHR 0x0A) \<and> prefix ''|'' row \<and> suffix ''|'' row
         \<and> \<not> sublist ''---'' row \<and> \<not> sublist ''Product Name'' row)
   \<and> (\<forall>col \<in> set (columns row).
         col \<in> trim ` set (split row CHR ''|'') \<and> col \<noteq> [] \<and> CHR ''|'' \<notin> set col
         \<and> \<not> is_ws (hd col) \<and> \<not> is_ws (last col))
   \<and> (CHR 0x0A \<notin> set h \<union> set sp \<union> set r1 \<union> set r2
        \<and> includesStr (trim h) ''Product Name'' \<and> includesStr (trim sp) ''---''
        \<and> isTableRow (trim r1) \<and> length (columns (trim r1)) = 3
        \<and> isTableRow (trim r2) \<and> length (columns (trim r2)) = 3
      \<longrightarrow> structuredProducts (h @ CHR 0x0A # sp @ CHR 0x0A # r1 @ CHR 0x0A # r2)
            = [productEntry (columns (trim r1)), productEntry (columns (trim r2))])"
proof -
  have link: "key \<noteq> None \<and> key \<noteq> Some [] \<and> rawData = Some raw \<and> raw \<noteq> []
      \<and> fst (fetchWithRetry net 3 1000 s) = Inr resp \<and> ok resp
      \<and> JSON_parse rt (body resp) = Some (JObj obj)
      \<and> map_of obj ''candidates'' = Some (JArr (JObj candidate # candidates))
      \<and> map_of candidate ''content'' = Some (JObj cont)
      \<and> map_of cont ''parts'' = Some (JArr (JObj part # parts))
      \<and> map_of part ''text'' = Some (JStr tx)
    \<longrightarrow> fst (extractProductData rt key net s rawData)
          = Some (if structuredProducts tx = [] then raw else structuredProducts tx)"
  proof
    assume a: "key \<noteq> None \<and> key \<noteq> Some [] \<and> rawData = Some raw \<and> raw \<noteq> []
      \<and> fst (fetchWithRetry net 3 1000 s) = Inr resp \<and> ok resp
      \<and> JSON_parse rt (body resp) = Some (JObj obj)
      \<and> map_of obj ''candidates'' = Some (JArr (JObj candidate # candidates))
      \<and> map_of candidate ''content'' = Some (JObj cont)
      \<and> map_of cont ''parts'' = Some (JArr (JObj part # parts))
      \<and> map_of part ''text'' = Some (JStr tx)"
    then have "responseText (JObj obj) = Inr (Some (structuredProducts tx))"
      by (intro responseText_answer [of obj candidate candidates cont part parts tx]) blast+
    with a show "fst (extractProductData rt key net s rawData)
          = Some (if structuredProducts tx = [] then raw else structuredProducts tx)"
      by (intro extractProductData_answer [of key rawData raw net s resp rt "JObj obj"]) blast+
  qed
  have entry: "productEntry cols
        = JObj [(''name'', JStr (cols ! 0)), (''price'', JStr (cols ! 1)),
                (''imageUrl'', JStr (cols ! 2)), (''rating'', JNum 0),
                (''reviews'', JNum 0), (''url'', JStr [])]"
    by (simp add: productEntry_def)
  have rows: "tableRows tx
        = filter (\<lambda>row. prefix ''|'' row \<and> suffix ''|'' row
                         \<and> \<not> sublist ''---'' row \<and> \<not> sublist ''Product Name'' row)
            (map trim (split tx CHR 0x0A))"
    unfolding tableRows_def by (rule filter_cong) (simp_all add: isTableRow_iff)
  have cols: "columns row = filter (\<lambda>col. col \<noteq> []) (map trim (split row CHR ''|''))"
    by (simp add: columns_def)
  have pieces: "\<forall>piece \<in> set (split str sep). sep \<notin> set piece"
    using split_no_sep [of _ str sep] by blast
  have ends: "trim str \<noteq> [] \<longrightarrow> \<not> is_ws (hd (trim str)) \<and> \<not> is_ws (last (trim str))"
    using trim_ends [of str] by blast
  have rowset: "\<forall>row. row \<in> set (tableRows tx) \<longleftrightarrow>
         row \<in> trim ` set (split tx CHR 0x0A) \<and> prefix ''|'' row \<and> suffix ''|'' row
         \<and> \<not> sublist ''---'' row \<and> \<not> sublist ''Product Name'' row"
    using tableRows_iff [of _ tx] by blast
  have colset: "\<forall>col \<in> set (columns row).
         col \<in> trim ` set (split row CHR ''|'') \<and> col \<noteq> [] \<and> CHR ''|'' \<notin> set col
         \<and> \<not> is_ws (hd col) \<and> \<not> is_ws (last col)"
    using columns_props [of _ row] by blast
  have four: "CHR 0x0A \<notin> set h \<union> set sp \<union> set r1 \<union> set r2
        \<and> includesStr (trim h) ''Product Name'' \<and> includesStr (trim sp) ''---''
        \<and> isTableRow (trim r1) \<and> length (columns (trim r1)) = 3
        \<and> isTableRow (trim r2) \<and> length (columns (trim r2)) = 3
      \<longrightarrow> structuredProducts (h @ CHR 0x0A # sp @ CHR 0x0A # r1 @ CHR 0x0A # r2)
            = [productEntry (columns (trim r1)), productEntry (columns (trim r2))]"
  proof
    assume a: "CHR 0x0A \<notin> set h \<union> set sp \<union> set r1 \<union> set r2
        \<and> includesStr (trim h) ''Product Name'' \<and> includesStr (trim sp) ''---''
        \<and> isTableRow (trim r1) \<and> length (columns (trim r1)) = 3
        \<and> isTableRow (trim r2) \<and> length (columns (trim r2)) = 3"
    then have rows: "tableRows (h @ CHR 0x0A # sp @ CHR 0x0A # r1 @ CHR 0x0A # r2)
                     = filter isTableRow [trim h, trim sp, trim r1, trim r2]"
      by (intro tableRows_four_lines) auto
    from a have "\<not> isTableRow (trim h)" "\<not> isTableRow (trim sp)"
      by (simp_all add: isTableRow_def del: startsWith.simps)
    with a rows
    have "tableRows (h @ CHR 0x0A # sp @ CHR 0x0A # r1 @ CHR 0x0A # r2) = [trim r1, trim r2]"
      by simp
    with a show "structuredProducts (h @ CHR 0x0A # sp @ CHR 0x0A # r1 @ CHR 0x0A # r2)
            = [productEntry (columns (trim r1)), productEntry (columns (trim r2))]"
      by (simp add: structuredProducts_eq)
  qed
  from link structuredProducts_eq [of tx] entry rows cols join_split [of str sep] pieces
    trim_parts [of str] ends rowset colset four
  show ?thesis by (intro conjI)
qed

theorem extractProductData_table_witness:
  "fst (extractProductData tableRuntime (Some ''gemini-key'') (\<lambda>i. Inr tableResponse)
          \<lparr>calls = 0, sleeps = []\<rparr> (Some [JStr ''<li>Widget $19.99</li>'']))
     = Some [JObj [(''name'', JStr ''Widget''), (''price'', JStr ''$19.99''),
                   (''imageUrl'', JStr ''http://x/w.png''), (''rating'', JNum 0),
                   (''reviews'', JNum 0), (''url'', JStr [])],
             JObj [(''name'', JStr ''Gadget''), (''price'', JStr ''$5''),
                   (''imageUrl'', JStr ''/img/g.png''), (''rating'', JNum 0),
                   (''reviews'', JNum 0), (''url'', JStr [])]]
   \<and> tableRows tableAnswer
       = [''| Widget  |  $19.99 | http://x/w.png |'', ''| half | row |'',
          ''| Gadget | $5 | /img/g.png | 4.5 |'']
   \<and> columns ''| Widget  |  $19.99 | http://x/w.png |'' = [''Widget'', ''$19.99'', ''http://x/w.png'']
   \<and> columns ''| half | row |'' = [''half'', ''row'']
   \<and> structuredProducts
        (''| Product Name | Price | Image URL |'' @ CHR 0x0A # ''| --- | --- | --- |''
           @ CHR 0x0A # ''  | Widget  |  $19.99 | http://x/w.png |  ''
           @ CHR 0x0A # ''| Gadget | $5 | /img/g.png |'')
       = [JObj [(''name'', JStr ''Widget''), (''price'', JStr ''$19.99''),
                (''imageUrl'', JStr ''http://x/w.png''), (''rating'', JNum 0),
                (''reviews'', JNum 0), (''url'', JStr [])],
          JObj [(''name'', JStr ''Gadget''), (''price'', JStr ''$5''),
                (''imageUrl'', JStr ''/img/g.png''), (''rating'', JNum 0),
                (''reviews'', JNum 0), (''url'', JStr [])]]"
proof -
  let ?h = "''| Product Name | Price | Image URL |''"
  let ?sp = "''| --- | --- | --- |''"
  let ?r1 = "''  | Widget  |  $19.99 | http://x/w.png |  ''"
  let ?r2 = "''| Gadget | $5 | /img/g.png |''"
  let ?e1 = "JObj [(''name'', JStr ''Widget''), (''price'', JStr ''$19.99''),
                   (''imageUrl'', JStr ''http://x/w.png''), (''rating'', JNum 0),
                   (''reviews'', JNum 0), (''url'', JStr [])]"
  let ?e2 = "JObj [(''name'', JStr ''Gadget''), (''price'', JStr ''$5''),
                   (''imageUrl'', JStr ''/img/g.png''), (''rating'', JNum 0),
                   (''reviews'', JNum 0), (''url'', JStr [])]"
  let ?net = "\<lambda>i::nat. Inr tableResponse :: js_error + response"
  let ?s = "\<lparr>calls = 0, sleeps = []\<rparr>"
  let ?raw = "[JStr ''<li>Widget $19.99</li>'']"
  let ?candidate = "[(''content'', JObj [(''parts'', JArr [JObj [(''text'', JStr tableAnswer)]]),
                                        (''role'', JStr ''model'')]),
                     (''finishReason'', JStr ''STOP'')]"
  let ?obj = "[(''candidates'', JArr [JObj ?candidate]), (''modelVersion'', JStr ''gemini-1.5-flash'')]"
  let ?cont = "[(''parts'', JArr [JObj [(''text'', JStr tableAnswer)]]), (''role'', JStr ''model'')]"
  let ?part = "[(''text'', JStr tableAnswer)]"
  have sp: "structuredProducts tableAnswer = [?e1, ?e2]" by code_simp
  have rows: "tableRows tableAnswer
       = [''| Widget  |  $19.99 | http://x/w.png |'', ''| half | row |'',
          ''| Gadget | $5 | /img/g.png | 4.5 |'']"
    by code_simp
  have c1: "columns ''| Widget  |  $19.99 | http://x/w.png |'' = [''Widget'', ''$19.99'', ''http://x/w.png'']"
    by code_simp
  have c2: "columns ''| half | row |'' = [''half'', ''row'']" by code_simp
  have f: "fst (fetchWithRetry ?net 3 1000 ?s) = Inr tableResponse"
    by (simp add: fetchWithRetry.simps)
  have hyp: "Some ''gemini-key'' \<noteq> None \<and> Some ''gemini-key'' \<noteq> Some []
      \<and> Some ?raw = Some ?raw \<and> ?raw \<noteq> []
      \<and> fst (fetchWithRetry ?net 3 1000 ?s) = Inr tableResponse \<and> ok tableResponse
      \<and> JSON_parse tableRuntime (body tableResponse) = Some (JObj ?obj)
      \<and> map_of ?obj ''candidates'' = Some (JArr (JObj ?candidate # []))
      \<and> map_of ?candidate ''content'' = Some (JObj ?cont)
      \<and> map_of ?cont ''parts'' = Some (JArr (JObj ?part # []))
      \<and> map_of ?part ''text'' = Some (JStr tableAnswer)"
    using f by (simp add: tableRuntime_def tableResponse_def exampleRuntime_def)
  note link = extractProductData_table
      [where key = "Some ''gemini-key''" and rawData = "Some ?raw" and raw = ?raw and net = ?net
         and s = ?s and resp = tableResponse and rt = tableRuntime and obj = ?obj
         and candidate = ?candidate and candidates = "[]" and cont = ?cont and part = ?part
         and parts = "[]" and tx = tableAnswer, THEN conjunct1]
  from link hyp
  have "fst (extractProductData tableRuntime (Some ''gemini-key'') ?net ?s (Some ?raw))
          = Some (if structuredProducts tableAnswer = [] then ?raw
                  else structuredProducts tableAnswer)"
    by (rule mp)
  then have 1: "fst (extractProductData tableRuntime (Some ''gemini-key'') ?net ?s (Some ?raw))
          = Some [?e1, ?e2]"
    unfolding sp by simp
  have hyp4: "CHR 0x0A \<notin> set ?h \<union> set ?sp \<union> set ?r1 \<union> set ?r2
        \<and> includesStr (trim ?h) ''Product Name'' \<and> includesStr (trim ?sp) ''---''
        \<and> isTableRow (trim ?r1) \<and> length (columns (trim ?r1)) = 3
        \<and> isTableRow (trim ?r2) \<and> length (columns (trim ?r2)) = 3"
    by code_simp
  have e1: "productEntry (columns (trim ?r1)) = ?e1" by code_simp
  have e2: "productEntry (columns (trim ?r2)) = ?e2" by code_simp
  from extractProductData_table [where h = ?h and sp = ?sp and ?r1.0 = ?r1 and ?r2.0 = ?r2] hyp4
  have "structuredProducts (?h @ CHR 0x0A # ?sp @ CHR 0x0A # ?r1 @ CHR 0x0A # ?r2)
          = [productEntry (columns (trim ?r1)), productEntry (columns (trim ?r2))]"
    by blast
  then have 2: "structuredProducts (?h @ CHR 0x0A # ?sp @ CHR 0x0A # ?r1 @ CHR 0x0A # ?r2)
          = [?e1, ?e2]"
    unfolding e1 e2 .
  from 1 rows c1 c2 2 show ?thesis by (intro conjI)
qed

section \<open>The fallback to the raw data\<close>

lemma extractProductData_cases:
  "fst (extractProductData rt key net s rawData) = rawData
   \<or> (rawData = None \<or> rawData = Some []) \<and> fst (extractProductData rt key net s rawData) = Some []
   \<or> (\<exists>ps. ps \<noteq> [] \<and> fst (extractProductData rt key net s rawData) = Some ps
          \<and> (\<exists>resp data. fst (fetchWithRetry net 3 1000 s) = Inr resp \<and> ok resp
                \<and> safeJsonParse rt resp = Inr data \<and> responseText data = Inr (Some ps)))"
  by (auto simp: extractProductData_def split: prod.splits sum.splits option.splits)

lemma responseText_products:
  "responseText data = Inr (Some ps) \<Longrightarrow> \<exists>t. ps = structuredProducts t"
  by (auto simp: responseText_def andThen_def split: sum.splits if_splits option.splits json.splits)

text \<open>
  Claim C5.  For a non-empty \<open>rawData\<close> the result is a non-empty array: the raw data
  itself or the structured products of the answer's table.  The raw data is returned
  when the API key is missing, when the request fails after its retries, when the
  response is an HTTP error or cannot be parsed, and when the answer has no text or its
  table gives no entry.  The empty array is returned only for an empty or absent input.
\<close>

theorem extractProductData_fallback:
  "(rawData = Some raw \<and> raw \<noteq> [] \<longrightarrow>
      (\<exists>out. fst (extractProductData rt key net s rawData) = Some out \<and> out \<noteq> []
         \<and> (out = raw \<or> (\<exists>t. out = structuredProducts t))))
   \<and> (key = None \<or> key = Some [] \<longrightarrow> fst (extractProductData rt key net s rawData) = rawData)
   \<and> (rawData = Some raw \<and> raw \<noteq> [] \<and> fst (fetchWithRetry net 3 1000 s) = Inl e
        \<longrightarrow> fst (extractProductData rt key net s rawData) = Some raw)
   \<and> (rawData = Some raw \<and> raw \<noteq> [] \<and> fst (fetchWithRetry net 3 1000 s) = Inr resp
        \<and> (\<not> ok resp \<or> JSON_parse rt (body resp) = None
            \<or> (\<exists>data. JSON_parse rt (body resp) = Some data
                  \<and> (\<forall>ps. responseText data = Inr (Some ps) \<longrightarrow> ps = [])))
        \<longrightarrow> fst (extractProductData rt key net s rawData) = Some raw)
   \<and> (fst (extractProductData rt key net s rawData) = Some []
        \<longrightarrow> rawData = None \<or> rawData = Some [])
   \<and> (key \<noteq> None \<and> key \<noteq> Some [] \<and> (rawData = None \<or> rawData = Some [])
        \<longrightarrow> fst (extractProductData rt key net s rawData) = Some [])"
proof (intro conjI impI)
  assume a: "rawData = Some raw \<and> raw \<noteq> []"
  from extractProductData_cases [of rt key net s rawData] a
  show "\<exists>out. fst (extractProductData rt key net s rawData) = Some out \<and> out \<noteq> []
         \<and> (out = raw \<or> (\<exists>t. out = structuredProducts t))"
    by (auto dest: responseText_products)
next
  assume "key = None \<or> key = Some []"
  then show "fst (extractProductData rt key net s rawData) = rawData"
    by (auto simp: extractProductData_def)
next
  assume "rawData = Some raw \<and> raw \<noteq> [] \<and> fst (fetchWithRetry net 3 1000 s) = Inl e"
  then show "fst (extractProductData rt key net s rawData) = Some raw"
    by (auto simp: extractProductData_def split: prod.splits sum.splits)
next
  assume "rawData = Some raw \<and> raw \<noteq> [] \<and> fst (fetchWithRetry net 3 1000 s) = Inr resp
        \<and> (\<not> ok resp \<or> JSON_parse rt (body resp) = None
            \<or> (\<exists>data. JSON_parse rt (body resp) = Some data
                  \<and> (\<forall>ps. responseText data = Inr (Some ps) \<longrightarrow> ps = [])))"
  then show "fst (extractProductData rt key net s rawData) = Some raw"
    by (auto simp: extractProductData_def safeJsonParse_def
        split: prod.splits sum.splits option.splits)
next
  assume "fst (extractProductData rt key net s rawData) = Some []"
  with extractProductData_cases [of rt key net s rawData]
  show "rawData = None \<or> rawData = Some []" by auto
next
  assume "key \<noteq> None \<and> key \<noteq> Some [] \<and> (rawData = None \<or> rawData = Some [])"
  then show "fst (extractProductData rt key net s rawData) = Some []"
    by (auto simp: extractProductData_def)
qed


theorem extractProductData_fallback_witness:
  \<open>fst (extractProductData
     \<lparr>hasFileSystemAccess = True, STORAGE_DIR = ''/app/.storage'',
      JSON_stringify = (\<lambda>v. ''{}''),
      JSON_parse = (\<lambda>s.
        if s = ''{"candidates":[{"content":{"parts":[{"text":"Sorry, I found no products."}]}}]}''
        then Some (JObj [(''candidates'', JArr [JObj [(''content'',
               JObj [(''parts'', JArr [JObj [(''text'', JStr ''Sorry, I found no products.'')]])])]])])
        else None),
      coercedPositive = (\<lambda>v. False)\<rparr>
     (Some ''secret'')
     (\<lambda>i. Inr \<lparr>ok = True, status = 200, statusText = ''OK'',
          body = ''{"candidates":[{"content":{"parts":[{"text":"Sorry, I found no products."}]}}]}''\<rparr>)
     \<lparr>calls = 0, sleeps = []\<rparr>
     (Some [JObj [(''name'', JStr ''Widget''), (''price'', JStr ''$19.99'')]]))
   = Some [JObj [(''name'', JStr ''Widget''), (''price'', JStr ''$19.99'')]]
   \<and> structuredProducts ''Sorry, I found no products.'' = []\<close>
proof -
  let ?body = \<open>''{"candidates":[{"content":{"parts":[{"text":"Sorry, I found no products."}]}}]}''\<close>
  let ?data = "JObj [(''candidates'', JArr [JObj [(''content'',
               JObj [(''parts'', JArr [JObj [(''text'', JStr ''Sorry, I found no products.'')]])])]])]"
  let ?rt = "\<lparr>hasFileSystemAccess = True, STORAGE_DIR = ''/app/.storage'',
      JSON_stringify = (\<lambda>v. ''{}''),
      JSON_parse = (\<lambda>s. if s = ?body then Some ?data else None),
      coercedPositive = (\<lambda>v. False)\<rparr>"
  let ?resp = "\<lparr>ok = True, status = 200, statusText = ''OK'', body = ?body\<rparr>"
  let ?net = "\<lambda>i::nat. Inr ?resp :: js_error + response"
  let ?raw = "[JObj [(''name'', JStr ''Widget''), (''price'', JStr ''$19.99'')]]"
  have none: "structuredProducts ''Sorry, I found no products.'' = []"
    by code_simp
  have f: "fst (fetchWithRetry ?net 3 1000 \<lparr>calls = 0, sleeps = []\<rparr>) = Inr ?resp"
    by (simp add: fetchWithRetry.simps)
  have r: "responseText ?data = Inr (Some [])"
    by (simp add: responseText_wellformed none)
  have "Some ?raw = Some ?raw \<and> ?raw \<noteq> []
        \<and> fst (fetchWithRetry ?net 3 1000 \<lparr>calls = 0, sleeps = []\<rparr>) = Inr ?resp
        \<and> (\<not> ok ?resp \<or> JSON_parse ?rt (body ?resp) = None
            \<or> (\<exists>data. JSON_parse ?rt (body ?resp) = Some data
                  \<and> (\<forall>ps. responseText data = Inr (Some ps) \<longrightarrow> ps = [])))"
    using f r by simp
  with extractProductData_fallback
         [of "Some ?raw" ?raw ?rt "Some ''secret''" ?net "\<lparr>calls = 0, sleeps = []\<rparr>" _ ?resp]
  have "fst (extractProductData ?rt (Some ''secret'') ?net \<lparr>calls = 0, sleeps = []\<rparr> (Some ?raw))
          = Some ?raw"
    by blast
  with none show ?thesis by simp
qed

section \<open>Storage round trip\<close>

lemma read_write_prop:
  "k \<noteq> ''__proto__'' \<Longrightarrow> read_prop (write_prop m k v) k = OwnString v"
  by (simp add: read_prop_def write_prop_def update_conv')

lemma read_write_prop_other:
  "k' \<noteq> k \<Longrightarrow> read_prop (write_prop m k v) k' = read_prop m k'"
  by (simp add: read_prop_def write_prop_def update_conv')

lemma read_delete_prop:
  "read_prop (delete_prop m k) k = (if k \<in> set object_prototype then Inherited k else Undefined)"
  by (simp add: read_prop_def delete_prop_def delete_conv')

lemma storage_roundtrip_memory:
  assumes "\<not> hasFileSystemAccess rt" and "key \<noteq> ''__proto__''"
    and "startsWith (JSON_stringify rt (JObj kvs)) ''{''"
    and "JSON_parse rt (JSON_stringify rt (JObj kvs)) = Some (JObj kvs)"
  shows "get_item rt io (set_item rt io' key (JObj kvs) st) key = Inr (Parsed (JObj kvs))"
proof -
  from assms(3) have ne: "JSON_stringify rt (JObj kvs) \<noteq> []" by auto
  show ?thesis
    using assms ne
    by (simp add: get_item_def set_item_def get_memory_def stringValue_def read_write_prop
        del: startsWith.simps)
qed

lemma storage_absent_memory:
  assumes "\<not> hasFileSystemAccess rt" and "key \<notin> set object_prototype"
  shows "key \<notin> fst ` set (memoryStore st) \<Longrightarrow> get_item rt io st key = Inr Null"
    and "get_item rt io (del_item rt io' key st) key = Inr Null"
proof -
  assume "key \<notin> fst ` set (memoryStore st)"
  then have "map_of (memoryStore st) key = None" by (simp add: map_of_eq_None_iff)
  with assms show "get_item rt io st key = Inr Null"
    by (simp add: get_item_def get_memory_def read_prop_def)
next
  from assms show "get_item rt io (del_item rt io' key st) key = Inr Null"
    by (simp add: get_item_def get_memory_def del_item_def read_delete_prop)
qed

text \<open>
  Claim C4.  In the memory store, a record written under a key is read back, and a key
  never written or deleted reads as \<open>null\<close> (the two lemmas above), for keys other than
  the names a plain object inherits.  For those names the claim fails: on an empty
  store \<open>storage.get("constructor")\<close> finds the inherited \<open>Object.prototype.constructor\<close>
  and returns it instead of \<open>null\<close>, and \<open>storage.set("__proto__", v)\<close> stores nothing,
  so that \<open>storage.get("__proto__")\<close> returns the prototype object and not \<open>v\<close>.
\<close>

theorem storage_inherited_keys:
  "get_item rt io \<lparr>memoryStore = [], files = []\<rparr> ''constructor'' = Inr (Builtin ''constructor'')
   \<and> get_item (rt\<lparr>hasFileSystemAccess := False\<rparr>) io
        (set_item (rt\<lparr>hasFileSystemAccess := False\<rparr>) io' ''__proto__'' v
           \<lparr>memoryStore = [], files = []\<rparr>) ''__proto__''
      = Inr (Builtin ''__proto__'')"
  by (simp add: get_item_def get_memory_def read_prop_def set_item_def write_prop_def
      object_prototype_def)

section \<open>Ratings\<close>

lemma digit_value_le: "is_digit c \<Longrightarrow> digit_value c \<le> 9"
  by (auto simp: is_digit_def digit_value_def)

lemma ratingMatch_range:
  "ratingMatch t = Some m \<Longrightarrow> 0 \<le> parseFloat m \<and> parseFloat m \<le> 99 / 10"
proof (induction t)
  case Nil
  then show ?case by simp
next
  case (Cons c cs)
  show ?case
  proof (cases "is_digit c")
    case False
    with Cons show ?thesis by simp
  next
    case True
    then have c: "(of_nat (digit_value c) :: rat) \<le> 9"
      using digit_value_le [of c] by (metis of_nat_le_iff of_nat_numeral)
    from True Cons.prems consider (one) "m = [c]"
      | (two) e where "m = [c, CHR ''.'', e]" "is_digit e"
      by (auto split: list.splits if_splits)
    then show ?thesis
    proof cases
      case one
      with c show ?thesis by simp
    next
      case two
      then have "(of_nat (digit_value e) :: rat) \<le> 9"
        using digit_value_le [of e] by (metis of_nat_le_iff of_nat_numeral)
      with c two show ?thesis by simp
    qed
  qed
qed

lemma ratingMatch_no_digit: "\<forall>c\<in>set t. \<not> is_digit c \<Longrightarrow> ratingMatch t = None"
  by (induction t) auto

lemma extractText_empty:
  "\<forall>sel\<in>set sels. trim (el sel) = [] \<Longrightarrow> extractText el sels = []"
  by (induction sels) (auto simp: Let_def)

lemma digit_char_digit: "d < 10 \<Longrightarrow> is_digit (digit_char d) \<and> digit_value (digit_char d) = d"
proof -
  assume "d < 10"
  then have "d \<in> {0, 1, 2, 3, 4, 5, 6, 7, 8, 9}" by auto
  then show ?thesis
    by (auto simp: digit_char_def is_digit_def digit_value_def)
qed

lemma is_digit_char: "is_digit c \<Longrightarrow> c = digit_char (digit_value c) \<and> digit_value c < 10"
proof -
  assume d: "is_digit c"
  define n where "n = (of_char c :: nat)"
  from d have "n \<in> {48, 49, 50, 51, 52, 53, 54, 55, 56, 57}"
    unfolding is_digit_def n_def [symmetric] by simp arith
  then have "n = of_char (digit_char (n - 48)) \<and> n - 48 < 10"
    by (auto simp: digit_char_def)
  then have "(of_char c :: nat) = of_char (digit_char (digit_value c)) \<and> digit_value c < 10"
    by (simp only: n_def digit_value_def)
  then show ?thesis by (simp only: of_char_eq_iff)
qed

lemma ratingMatch_first:
  "\<forall>x\<in>set pre. \<not> is_digit x \<Longrightarrow> is_digit c \<Longrightarrow>
   ratingMatch (pre @ c # rest) =
     (case rest of
        d # e # r \<Rightarrow> if d = CHR ''.'' \<and> is_digit e then Some [c, d, e] else Some [c]
      | _ \<Rightarrow> Some [c])"
  by (induction pre) auto

lemma ratingOfText_decimal:
  "\<forall>x\<in>set pre. \<not> is_digit x \<Longrightarrow> is_digit c \<Longrightarrow> is_digit e \<Longrightarrow>
   ratingOfText (pre @ c # CHR ''.'' # e # rest)
     = of_nat (digit_value c) + of_nat (digit_value e) / 10"
  by (simp add: ratingOfText_def ratingMatch_first)

lemma ratingOfText_integer:
  "\<forall>x\<in>set pre. \<not> is_digit x \<Longrightarrow> is_digit c \<Longrightarrow>
   \<not> (\<exists>e r. rest = CHR ''.'' # e # r \<and> is_digit e) \<Longrightarrow>
   ratingOfText (pre @ c # rest) = of_nat (digit_value c)"
  by (auto simp: ratingOfText_def ratingMatch_first split: list.splits)

lemma extractText_first:
  "extractText el sels =
     (case filter (\<lambda>sel. trim (el sel) \<noteq> []) sels of
        [] \<Rightarrow> []
      | sel # _ \<Rightarrow> trim (el sel))"
  by (induction sels) (auto simp: Let_def)

text \<open>
  Claim C3, amended.  The page function stores the number spelled by the first match of
  \<open>/([0-9]\.[0-9])|([0-9])/\<close> in the rating text, unclamped: with \<open>c\<close> the first digit
  of the text, the stored rating is \<open>c.e\<close> when a dot and a digit \<open>e\<close> follow \<open>c\<close>,
  and \<open>c\<close> otherwise (a sign before the digit is not read).  So a first digit above 5
  gives a stored rating above 5, and the stored rating lies between 0 and 9.9.  The
  rating text is the trimmed text of the first rating selector that has one.  Without a
  digit in the text, and without any rating text, the stored rating is exactly 0.  The
  clamp is in the results view: \<open>cleanProductData\<close> shows a numeric rating \<open>x\<close> as 5
  when \<open>x \<ge> 5\<close>, as 0 when \<open>x \<le> 0\<close>, as \<open>x\<close> in between, and anything that
  is not a number as 0.
\<close>

theorem rating_normalization:
  "((\<forall>x\<in>set pre. \<not> is_digit x) \<and> is_digit c \<and> is_digit e \<longrightarrow>
      ratingOfText (pre @ c # CHR ''.'' # e # rest)
        = of_nat (digit_value c) + of_nat (digit_value e) / 10)
   \<and> ((\<forall>x\<in>set pre. \<not> is_digit x) \<and> is_digit c
        \<and> \<not> (\<exists>e r. rest = CHR ''.'' # e # r \<and> is_digit e) \<longrightarrow>
      ratingOfText (pre @ c # rest) = of_nat (digit_value c))
   \<and> ((\<forall>x\<in>set pre. \<not> is_digit x) \<and> is_digit c \<and> 5 < digit_value c \<longrightarrow>
      5 < ratingOfText (pre @ c # rest))
   \<and> (d < 10 \<longrightarrow> is_digit (digit_char d) \<and> digit_value (digit_char d) = d)
   \<and> (is_digit c \<longrightarrow> c = digit_char (digit_value c) \<and> digit_value c < 10)
   \<and> 0 \<le> ratingOfText t \<and> ratingOfText t \<le> 99 / 10
   \<and> ((\<forall>c\<in>set t. \<not> is_digit c) \<longrightarrow> ratingOfText t = 0)
   \<and> scrapedRating el
        = ratingOfText (case filter (\<lambda>sel. trim (el sel) \<noteq> []) ratingSelectors of
                          [] \<Rightarrow> []
                        | sel # _ \<Rightarrow> trim (el sel))
   \<and> ((\<forall>sel\<in>set ratingSelectors. trim (el sel) = []) \<longrightarrow> scrapedRating el = 0)
   \<and> 0 \<le> cleanProductData_rating r \<and> cleanProductData_rating r \<le> 5
   \<and> (5 \<le> x \<longrightarrow> cleanProductData_rating (Some (JNum x)) = 5)
   \<and> (x \<le> 0 \<longrightarrow> cleanProductData_rating (Some (JNum x)) = 0)
   \<and> (0 \<le> x \<and> x \<le> 5 \<longrightarrow> cleanProductData_rating (Some (JNum x)) = x)
   \<and> ((\<forall>y. r \<noteq> Some (JNum y)) \<longrightarrow> cleanProductData_rating r = 0)"
proof -
  have dec: "(\<forall>x\<in>set pre. \<not> is_digit x) \<and> is_digit c \<and> is_digit e \<longrightarrow>
      ratingOfText (pre @ c # CHR ''.'' # e # rest)
        = of_nat (digit_value c) + of_nat (digit_value e) / 10"
    using ratingOfText_decimal [of pre c e rest] by blast
  have int: "(\<forall>x\<in>set pre. \<not> is_digit x) \<and> is_digit c
        \<and> \<not> (\<exists>e r. rest = CHR ''.'' # e # r \<and> is_digit e) \<longrightarrow>
      ratingOfText (pre @ c # rest) = of_nat (digit_value c)"
    using ratingOfText_integer [of pre c rest] by blast
  have big: "(\<forall>x\<in>set pre. \<not> is_digit x) \<and> is_digit c \<and> 5 < digit_value c \<longrightarrow>
      5 < ratingOfText (pre @ c # rest)"
  proof (intro impI)
    assume a: "(\<forall>x\<in>set pre. \<not> is_digit x) \<and> is_digit c \<and> 5 < digit_value c"
    then have v: "(5 :: rat) < of_nat (digit_value c)"
      by (metis of_nat_less_iff of_nat_numeral)
    show "5 < ratingOfText (pre @ c # rest)"
    proof (cases "\<exists>e r. rest = CHR ''.'' # e # r \<and> is_digit e")
      case True
      then obtain e r where "rest = CHR ''.'' # e # r" "is_digit e" by blast
      with a ratingOfText_decimal [of pre c e r]
      have "ratingOfText (pre @ c # rest) = of_nat (digit_value c) + of_nat (digit_value e) / 10"
        by simp
      moreover have "(0 :: rat) \<le> of_nat (digit_value e) / 10" by simp
      ultimately show ?thesis using v by linarith
    next
      case False
      with a ratingOfText_integer [of pre c rest] v show ?thesis by simp
    qed
  qed
  have dig1: "d < 10 \<longrightarrow> is_digit (digit_char d) \<and> digit_value (digit_char d) = d"
    using digit_char_digit [of d] by blast
  have dig2: "is_digit c \<longrightarrow> c = digit_char (digit_value c) \<and> digit_value c < 10"
    using is_digit_char [of c] by blast
  have range: "0 \<le> ratingOfText t \<and> ratingOfText t \<le> 99 / 10"
    using ratingMatch_range [of t] by (auto simp: ratingOfText_def split: option.splits)
  have nodigit: "(\<forall>c\<in>set t. \<not> is_digit c) \<longrightarrow> ratingOfText t = 0"
    using ratingMatch_no_digit [of t] by (auto simp: ratingOfText_def)
  have sel: "scrapedRating el
        = ratingOfText (case filter (\<lambda>sel. trim (el sel) \<noteq> []) ratingSelectors of
                          [] \<Rightarrow> []
                        | sel # _ \<Rightarrow> trim (el sel))"
    by (simp only: scrapedRating_def extractText_first)
  have notext: "(\<forall>sel\<in>set ratingSelectors. trim (el sel) = []) \<longrightarrow> scrapedRating el = 0"
    using extractText_empty [of ratingSelectors el] by (auto simp: scrapedRating_def ratingOfText_def)
  have view: "0 \<le> cleanProductData_rating r \<and> cleanProductData_rating r \<le> 5"
    by (auto simp: cleanProductData_rating_def split: option.splits json.splits)
  have other: "(\<forall>y. r \<noteq> Some (JNum y)) \<longrightarrow> cleanProductData_rating r = 0"
    by (auto simp: cleanProductData_rating_def split: option.splits json.splits)
  have v1: "5 \<le> x \<longrightarrow> cleanProductData_rating (Some (JNum x)) = 5"
    and v2: "x \<le> 0 \<longrightarrow> cleanProductData_rating (Some (JNum x)) = 0"
    and v3: "0 \<le> x \<and> x \<le> 5 \<longrightarrow> cleanProductData_rating (Some (JNum x)) = x"
    by (simp_all add: cleanProductData_rating_def)
  from dec int big dig1 dig2 range nodigit sel notext view other v1 v2 v3
  show ?thesis by blast
qed

theorem rating_normalization_witness:
  "ratingOfText ''4.5 out of 5 stars'' = 9 / 2
   \<and> ratingOfText ''Rated 8.5 of 10'' = 17 / 2
   \<and> 5 < ratingOfText ''Rated 8.5 of 10''
   \<and> scrapedRating (\<lambda>sel. if sel = ''.stars'' then '' 9 stars '' else []) = 9
   \<and> ratingOfText ''no rating yet'' = 0
   \<and> scrapedRating (\<lambda>sel. []) = 0
   \<and> cleanProductData_rating (Some (JNum (17 / 2))) = 5
   \<and> cleanProductData_rating (Some (JNum (- 1))) = 0
   \<and> cleanProductData_rating (Some (JNum (9 / 2))) = 9 / 2
   \<and> cleanProductData_rating None = 0"
proof -
  let ?el = "\<lambda>sel. if sel = ''.stars'' then '' 9 stars '' else []"
  have dv: "digit_value CHR ''4'' = 4" "digit_value CHR ''5'' = 5" "digit_value CHR ''8'' = 8"
    "digit_value CHR ''9'' = 9"
    by (simp_all add: digit_value_def)
  have dg: "is_digit CHR ''4''" "is_digit CHR ''5''" "is_digit CHR ''8''" "is_digit CHR ''9''"
    by (simp_all add: is_digit_def)
  have p0: "\<forall>x\<in>set []. \<not> is_digit x" by simp
  have p1: "\<forall>x\<in>set ''Rated ''. \<not> is_digit x" by (simp add: is_digit_def)
  from rating_normalization [of "[]" "CHR ''4''" "CHR ''5''" "'' out of 5 stars''", THEN conjunct1]
    p0 dg dv
  have a: "ratingOfText ''4.5 out of 5 stars'' = 9 / 2" by simp
  from rating_normalization [of "''Rated ''" "CHR ''8''" "CHR ''5''" "'' of 10''", THEN conjunct1]
    p1 dg dv
  have b: "ratingOfText ''Rated 8.5 of 10'' = 17 / 2" by simp
  have big: "(5::nat) < digit_value CHR ''8''" by (simp add: dv)
  from rating_normalization [of "''Rated ''" "CHR ''8''" _ "''.5 of 10''",
      THEN conjunct2, THEN conjunct2, THEN conjunct1] p1 dg big
  have b2: "5 < ratingOfText ''Rated 8.5 of 10''" by simp
  have nodot: "\<not> (\<exists>e r. '' stars'' = CHR ''.'' # e # r \<and> is_digit e)" by simp
  from rating_normalization [of "[]" "CHR ''9''" _ "'' stars''", THEN conjunct2, THEN conjunct1]
    p0 dg dv nodot
  have c9: "ratingOfText ''9 stars'' = 9" by simp
  have f: "(case filter (\<lambda>sel. trim (?el sel) \<noteq> []) ratingSelectors of
              [] \<Rightarrow> []
            | sel # _ \<Rightarrow> trim (?el sel)) = ''9 stars''"
    by (simp add: ratingSelectors_def trim_def is_ws_def)
  from rating_normalization [of _ _ _ _ _ _ ?el]
  have "scrapedRating ?el
        = ratingOfText (case filter (\<lambda>sel. trim (?el sel) \<noteq> []) ratingSelectors of
                          [] \<Rightarrow> []
                        | sel # _ \<Rightarrow> trim (?el sel))"
    by blast
  then have s9: "scrapedRating ?el = 9" unfolding f c9 .
  have nd: "\<forall>c\<in>set ''no rating yet''. \<not> is_digit c" by (simp add: is_digit_def)
  have ns: "\<forall>sel\<in>set ratingSelectors. trim [] = []" by (simp add: trim_def)
  have d: "\<forall>y. (None :: json option) \<noteq> Some (JNum y)" by simp
  from rating_normalization
         [of "[]" "CHR ''0''" "CHR ''0''" "[]" 0 "''no rating yet''" "\<lambda>sel. []" None 0]
  have "((\<forall>c\<in>set ''no rating yet''. \<not> is_digit c) \<longrightarrow> ratingOfText ''no rating yet'' = 0)
        \<and> ((\<forall>sel\<in>set ratingSelectors. trim [] = []) \<longrightarrow> scrapedRating (\<lambda>sel. []) = 0)
        \<and> ((\<forall>y. (None :: json option) \<noteq> Some (JNum y)) \<longrightarrow> cleanProductData_rating None = 0)"
    by blast
  with nd ns d have 1: "ratingOfText ''no rating yet'' = 0" "scrapedRating (\<lambda>sel. []) = 0"
    "cleanProductData_rating None = 0"
    by blast+
  have v: "(5 \<le> x \<longrightarrow> cleanProductData_rating (Some (JNum x)) = 5)
        \<and> (x \<le> 0 \<longrightarrow> cleanProductData_rating (Some (JNum x)) = 0)
        \<and> (0 \<le> x \<and> x \<le> 5 \<longrightarrow> cleanProductData_rating (Some (JNum x)) = x)" for x
    using rating_normalization [of "[]" "CHR ''0''" "CHR ''0''" "[]" 0 "[]" "\<lambda>sel. []" None x]
    by blast
  from v [of "17 / 2"] have 2: "cleanProductData_rating (Some (JNum (17 / 2))) = 5" by simp
  from v [of "- 1"] have 3: "cleanProductData_rating (Some (JNum (- 1))) = 0" by simp
  from v [of "9 / 2"] have 4: "cleanProductData_rating (Some (JNum (9 / 2))) = 9 / 2" by simp
  from a b b2 s9 1 2 3 4 show ?thesis by simp
qed

text \<open>
  Claim C3 as stated fails: the rating text \<open>7.2\<close> is stored as 7.2, not 5, and the
  text \<open>-1\<close> is stored as 1, not 0.
\<close>

theorem rating_not_clamped:
  "ratingOfText ''7.2'' = 36 / 5 \<and> ratingOfText ''7.2'' \<noteq> 5
   \<and> ratingOfText ''-1'' = 1 \<and> ratingOfText ''-1'' \<noteq> 0"
proof -
  have a: "ratingOfText ''7.2'' = 36 / 5" by code_simp
  have b: "ratingOfText ''-1'' = 1" by code_simp
  show ?thesis unfolding a b by simp
qed

section \<open>JSON extraction in \<open>compareWebsites\<close>\<close>

lemma afterFence_None: "\<not> includesStr tx ''```'' \<Longrightarrow> afterFence tx = None"
  by (induction tx) (auto simp del: startsWith.simps)

lemma includes_fence_json:
  assumes "includesStr tx ''```json''"
  shows "includesStr tx ''```''"
proof -
  from assms obtain ps ss where "tx = ps @ ''```json'' @ ss"
    by (auto simp: includesStr_sublist sublist_def)
  then have "tx = ps @ ''```'' @ (''json'' @ ss)" by simp
  then show ?thesis unfolding includesStr_sublist sublist_def by blast
qed

lemma jsonCandidate_plain: "\<not> includesStr tx ''```'' \<Longrightarrow> jsonCandidate tx = tx"
  using includes_fence_json [of tx] by (auto simp: jsonCandidate_def)

lemma jsonCandidate_cases:
  "jsonCandidate tx =
     (case codeBlockMatch tx of
        Some block \<Rightarrow> if block \<noteq> [] then trim block else tx
      | None \<Rightarrow> tx)"
proof (cases "includesStr tx ''```''")
  case True
  then show ?thesis by (simp add: jsonCandidate_def)
next
  case False
  then have "codeBlockMatch tx = None" by (simp add: codeBlockMatch_def afterFence_None)
  with False show ?thesis by (simp add: jsonCandidate_plain)
qed

lemma extract_plain:
  assumes "\<not> includesStr tx ''```''"
  shows "compareWebsites_extract rt m cs tx = spec_extract rt m cs tx"
proof -
  from assms have c: "codeBlockMatch tx = None" by (simp add: codeBlockMatch_def afterFence_None)
  show ?thesis
    by (simp add: compareWebsites_extract_def spec_extract_def jsonCandidate_plain [OF assms] c
        Let_def split: sum.splits)
qed

lemma startsWith_append_short:
  "startsWith (xs @ ys) p \<Longrightarrow> length p \<le> length xs \<Longrightarrow> startsWith xs p"
  by (simp add: startsWith_prefix prefix_append) (metis prefix_length_le antisym append_Nil2 prefix_def append_eq_append_conv)

lemma afterFence_first:
  "\<not> includesStr (pre @ ''``'') ''```'' \<Longrightarrow> afterFence (pre @ ''```'' @ rest) = Some rest"
proof (induction pre)
  case Nil
  then show ?case by simp
next
  case (Cons c pre)
  from Cons.prems have n: "\<not> startsWith ((c # pre) @ ''``'') ''```''"
    and r: "\<not> includesStr (pre @ ''``'') ''```''" by (auto simp del: startsWith.simps)
  have "\<not> startsWith ((c # pre) @ ''```'' @ rest) ''```''"
  proof
    assume "startsWith ((c # pre) @ ''```'' @ rest) ''```''"
    then have "startsWith (((c # pre) @ ''``'') @ (''`'' @ rest)) ''```''" by simp
    then have "startsWith ((c # pre) @ ''``'') ''```''"
      by (rule startsWith_append_short) simp
    with n show False by simp
  qed
  with Cons.IH [OF r] show ?case by (simp del: startsWith.simps) 
qed

lemma beforeFence_first:
  "\<not> includesStr (block @ ''``'') ''```'' \<Longrightarrow> beforeFence (block @ ''```'' @ post) = Some block"
proof (induction block)
  case Nil
  then show ?case by simp
next
  case (Cons c block)
  from Cons.prems have n: "\<not> startsWith ((c # block) @ ''``'') ''```''"
    and r: "\<not> includesStr (block @ ''``'') ''```''" by (auto simp del: startsWith.simps)
  have "\<not> startsWith ((c # block) @ ''```'' @ post) ''```''"
  proof
    assume "startsWith ((c # block) @ ''```'' @ post) ''```''"
    then have "startsWith (((c # block) @ ''``'') @ (''`'' @ post)) ''```''" by simp
    then have "startsWith ((c # block) @ ''``'') ''```''"
      by (rule startsWith_append_short) simp
    with n show False by simp
  qed
  with Cons.IH [OF r] show ?case by (simp del: startsWith.simps) 
qed

lemma beforeFence_None: "\<not> includesStr s ''```'' \<Longrightarrow> beforeFence s = None"
  by (induction s) (auto simp del: startsWith.simps)

lemma codeBlockMatch_first:
  assumes "tx = pre @ ''```'' @ rest" and "\<not> includesStr (pre @ ''``'') ''```''"
  shows "codeBlockMatch tx
           = beforeFence (dropWhile is_ws (if startsWith rest ''json'' then drop 4 rest else rest))"
proof -
  from afterFence_first [OF assms(2), of rest] have "afterFence tx = Some rest"
    by (simp only: assms(1))
  then show ?thesis by (simp only: codeBlockMatch_def option.case)
qed

text \<open>
  Claim C6, amended.  \<open>compareWebsites\<close> never throws: a throw before the answer is read
  gives the fallback SWOT, and the extraction returns either a parsed object or the
  fallback.  The extraction parses one candidate string.  Without a fence in the answer
  the candidate is the whole answer.  Otherwise the block opens at the first fence of
  the answer, after an optional \<open>json\<close> tag and white space, and runs to the next
  fence: when there is such a next fence and the contents before it are not empty, the
  candidate is those contents, trimmed; when the contents are empty, or no fence closes
  the block, the candidate is the whole answer (also when a later block has contents).
  When the parse of the candidate fails, the extraction parses the candidate from its
  first \<open>{\<close> to its last \<open>}\<close>; when that fails too, or there are no such braces,
  the result is the fallback.  On an answer without a fence this is the order of the
  specification (whole text, then braces of the whole text, then fallback).
\<close>

theorem compareWebsites_extraction:
  "(\<not> includesStr tx ''```'' \<longrightarrow>
      jsonCandidate tx = tx
      \<and> compareWebsites_extract rt m cs tx = spec_extract rt m cs tx)
   \<and> (tx = pre @ ''```'' @ rest \<and> \<not> includesStr (pre @ ''``'') ''```''
        \<and> dropWhile is_ws (if startsWith rest ''json'' then drop 4 rest else rest)
            = block @ ''```'' @ post
        \<and> \<not> includesStr (block @ ''``'') ''```''
      \<longrightarrow> codeBlockMatch tx = Some block
          \<and> jsonCandidate tx = (if block \<noteq> [] then trim block else tx))
   \<and> (tx = pre @ ''```'' @ rest \<and> \<not> includesStr (pre @ ''``'') ''```''
        \<and> \<not> includesStr (dropWhile is_ws (if startsWith rest ''json'' then drop 4 rest else rest))
              ''```''
      \<longrightarrow> codeBlockMatch tx = None \<and> jsonCandidate tx = tx)
   \<and> (codeBlockMatch tx = Some block \<and> block \<noteq> [] \<longrightarrow> jsonCandidate tx = trim block)
   \<and> (codeBlockMatch tx = None \<or> codeBlockMatch tx = Some [] \<longrightarrow> jsonCandidate tx = tx)
   \<and> (parseSwot rt (jsonCandidate tx) = Inr r \<longrightarrow> compareWebsites_extract rt m cs tx = r)
   \<and> (parseSwot rt (jsonCandidate tx) = Inl e
        \<and> indexOf (jsonCandidate tx) CHR ''{'' \<noteq> - 1
        \<and> lastIndexOf (jsonCandidate tx) CHR ''}'' > indexOf (jsonCandidate tx) CHR ''{''
        \<and> parseSwot rt (substring (jsonCandidate tx)
              (nat (indexOf (jsonCandidate tx) CHR ''{''))
              (nat (lastIndexOf (jsonCandidate tx) CHR ''}'' + 1))) = Inr r
      \<longrightarrow> compareWebsites_extract rt m cs tx = r)
   \<and> (parseSwot rt (jsonCandidate tx) = Inl e
        \<and> (indexOf (jsonCandidate tx) CHR ''{'' = - 1
            \<or> lastIndexOf (jsonCandidate tx) CHR ''}'' = - 1
            \<or> lastIndexOf (jsonCandidate tx) CHR ''}'' \<le> indexOf (jsonCandidate tx) CHR ''{''
            \<or> parseSwot rt (substring (jsonCandidate tx)
                  (nat (indexOf (jsonCandidate tx) CHR ''{''))
                  (nat (lastIndexOf (jsonCandidate tx) CHR ''}'' + 1))) = Inl e')
      \<longrightarrow> compareWebsites_extract rt m cs tx = generateFallbackSWOT m cs)
   \<and> (compareWebsites_extract rt m cs tx = generateFallbackSWOT m cs
        \<or> (\<exists>s. parseSwot rt s = Inr (compareWebsites_extract rt m cs tx)))
   \<and> compareWebsites rt (Inl err) m cs = generateFallbackSWOT m cs
   \<and> compareWebsites rt (Inr tx) m cs = compareWebsites_extract rt m cs tx"
proof (intro conjI impI)
  assume "\<not> includesStr tx ''```''"
  then show "jsonCandidate tx = tx" by (rule jsonCandidate_plain)
next
  assume "\<not> includesStr tx ''```''"
  then show "compareWebsites_extract rt m cs tx = spec_extract rt m cs tx"
    by (rule extract_plain)
next
  assume a: "tx = pre @ ''```'' @ rest \<and> \<not> includesStr (pre @ ''``'') ''```''
        \<and> dropWhile is_ws (if startsWith rest ''json'' then drop 4 rest else rest)
            = block @ ''```'' @ post
        \<and> \<not> includesStr (block @ ''``'') ''```''"
  then have "codeBlockMatch tx = beforeFence (block @ ''```'' @ post)"
    using codeBlockMatch_first [of tx pre rest] by simp
  moreover from a have "beforeFence (block @ ''```'' @ post) = Some block"
    by (intro beforeFence_first) blast
  ultimately show m: "codeBlockMatch tx = Some block" by (simp only:)
  then show "jsonCandidate tx = (if block \<noteq> [] then trim block else tx)"
    by (simp add: jsonCandidate_cases)
next
  assume a: "tx = pre @ ''```'' @ rest \<and> \<not> includesStr (pre @ ''``'') ''```''
        \<and> \<not> includesStr (dropWhile is_ws (if startsWith rest ''json'' then drop 4 rest else rest))
              ''```''"
  then have "codeBlockMatch tx
           = beforeFence (dropWhile is_ws (if startsWith rest ''json'' then drop 4 rest else rest))"
    using codeBlockMatch_first [of tx pre rest] by blast
  moreover from a
  have "beforeFence (dropWhile is_ws (if startsWith rest ''json'' then drop 4 rest else rest)) = None"
    by (intro beforeFence_None) blast
  ultimately show m: "codeBlockMatch tx = None" by (simp only:)
  then show "jsonCandidate tx = tx" by (simp add: jsonCandidate_cases)
next
  assume "codeBlockMatch tx = Some block \<and> block \<noteq> []"
  then show "jsonCandidate tx = trim block" by (simp add: jsonCandidate_cases)
next
  assume "codeBlockMatch tx = None \<or> codeBlockMatch tx = Some []"
  then show "jsonCandidate tx = tx" by (auto simp: jsonCandidate_cases)
next
  assume "parseSwot rt (jsonCandidate tx) = Inr r"
  then show "compareWebsites_extract rt m cs tx = r"
    by (simp add: compareWebsites_extract_def)
next
  assume "parseSwot rt (jsonCandidate tx) = Inl e
        \<and> indexOf (jsonCandidate tx) CHR ''{'' \<noteq> - 1
        \<and> lastIndexOf (jsonCandidate tx) CHR ''}'' > indexOf (jsonCandidate tx) CHR ''{''
        \<and> parseSwot rt (substring (jsonCandidate tx)
              (nat (indexOf (jsonCandidate tx) CHR ''{''))
              (nat (lastIndexOf (jsonCandidate tx) CHR ''}'' + 1))) = Inr r"
  moreover have "- 1 \<le> indexOf (jsonCandidate tx) CHR ''{''" by (simp add: indexOf_def)
  ultimately show "compareWebsites_extract rt m cs tx = r"
    by (auto simp: compareWebsites_extract_def Let_def)
next
  assume "parseSwot rt (jsonCandidate tx) = Inl e
        \<and> (indexOf (jsonCandidate tx) CHR ''{'' = - 1
            \<or> lastIndexOf (jsonCandidate tx) CHR ''}'' = - 1
            \<or> lastIndexOf (jsonCandidate tx) CHR ''}'' \<le> indexOf (jsonCandidate tx) CHR ''{''
            \<or> parseSwot rt (substring (jsonCandidate tx)
                  (nat (indexOf (jsonCandidate tx) CHR ''{''))
                  (nat (lastIndexOf (jsonCandidate tx) CHR ''}'' + 1))) = Inl e')"
  then show "compareWebsites_extract rt m cs tx = generateFallbackSWOT m cs"
    by (auto simp: compareWebsites_extract_def Let_def)
next
  show "compareWebsites_extract rt m cs tx = generateFallbackSWOT m cs
        \<or> (\<exists>s. parseSwot rt s = Inr (compareWebsites_extract rt m cs tx))"
    by (auto simp: compareWebsites_extract_def Let_def split: sum.splits)
next
  show "compareWebsites rt (Inl err) m cs = generateFallbackSWOT m cs"
    by (simp add: compareWebsites_def)
next
  show "compareWebsites rt (Inr tx) m cs = compareWebsites_extract rt m cs tx"
    by (simp add: compareWebsites_def)
qed

text \<open>
  Claim C6 as stated fails: when the answer has a fence, the whole text is never parsed
  first.  The answer below is valid JSON as a whole, so the specified order returns its
  \<open>strengths\<close>; the code parses the fenced contents \<open>a\<close>, finds no brace in them and
  returns the fallback.
\<close>

theorem compareWebsites_fence_first:
  \<open>compareWebsites_extract
      (exampleRuntime [(''{"strengths":["```a```"]}'', JObj [(''strengths'', JArr [JStr ''```a```''])])])
      exampleSite [] ''{"strengths":["```a```"]}''
    = generateFallbackSWOT exampleSite []
   \<and> spec_extract
      (exampleRuntime [(''{"strengths":["```a```"]}'', JObj [(''strengths'', JArr [JStr ''```a```''])])])
      exampleSite [] ''{"strengths":["```a```"]}''
    = \<lparr>strengths = [JStr ''```a```''], weaknesses = [], opportunities = [], threats = []\<rparr>
   \<and> compareWebsites_extract
      (exampleRuntime [(''{"strengths":["```a```"]}'', JObj [(''strengths'', JArr [JStr ''```a```''])])])
      exampleSite [] ''{"strengths":["```a```"]}''
    \<noteq> spec_extract
      (exampleRuntime [(''{"strengths":["```a```"]}'', JObj [(''strengths'', JArr [JStr ''```a```''])])])
      exampleSite [] ''{"strengths":["```a```"]}''\<close>
proof -
  let ?tx = \<open>''{"strengths":["```a```"]}''\<close>
  let ?rt = "exampleRuntime [(?tx, JObj [(''strengths'', JArr [JStr ''```a```''])])]"
  have cand: "jsonCandidate ?tx = ''a''" by code_simp
  have p1: "parseSwot ?rt ''a'' = Inl (Error ''SyntaxError'')"
    by (simp add: parseSwot_def exampleRuntime_def)
  have i: "indexOf ''a'' CHR ''{'' = - 1" by (simp add: indexOf_def)
  have code: "compareWebsites_extract ?rt exampleSite [] ?tx = generateFallbackSWOT exampleSite []"
    by (simp add: compareWebsites_extract_def cand p1 i)
  have p2: "parseSwot ?rt ?tx
              = Inr \<lparr>strengths = [JStr ''```a```''], weaknesses = [], opportunities = [], threats = []\<rparr>"
    by (simp add: parseSwot_def exampleRuntime_def swotOf_def andThen_def arrayOrEmpty_def)
  have spec: "spec_extract ?rt exampleSite [] ?tx
                = \<lparr>strengths = [JStr ''```a```''], weaknesses = [], opportunities = [], threats = []\<rparr>"
    by (simp add: spec_extract_def p2)
  have "opportunities (generateFallbackSWOT exampleSite []) \<noteq> []"
    by (simp add: generateFallbackSWOT_def)
  then have "generateFallbackSWOT exampleSite []
               \<noteq> \<lparr>strengths = [JStr ''```a```''], weaknesses = [], opportunities = [], threats = []\<rparr>"
    by auto
  with code spec show ?thesis by simp
qed

theorem compareWebsites_extraction_witness:
  \<open>compareWebsites
      (exampleRuntime [(''{"strengths":["fast"]}'', JObj [(''strengths'', JArr [JStr ''fast''])])])
      (Inr (''Here is the analysis:'' @ CHR 0x0A # ''```json'' @ CHR 0x0A # ''{"strengths":["fast"]}''
              @ CHR 0x0A # ''```'' @ CHR 0x0A # ''Hope it helps.''))
      exampleSite []
    = \<lparr>strengths = [JStr ''fast''], weaknesses = [], opportunities = [], threats = []\<rparr>
   \<and> jsonCandidate
        (''Here is the analysis:'' @ CHR 0x0A # ''```json'' @ CHR 0x0A # ''{"strengths":["fast"]}''
              @ CHR 0x0A # ''```'' @ CHR 0x0A # ''Hope it helps.'')
      = ''{"strengths":["fast"]}''
   \<and> jsonCandidate ''``` ``` ```json {"strengths":["fast"]} ```''
      = ''``` ``` ```json {"strengths":["fast"]} ```''
   \<and> jsonCandidate ''```json {"strengths":["fast"]}'' = ''```json {"strengths":["fast"]}''
   \<and> compareWebsites_extract
      (exampleRuntime [(''{"strengths":["fast"]}'', JObj [(''strengths'', JArr [JStr ''fast''])])])
      exampleSite [] ''Sure: {"strengths":["fast"]} Done.''
    = \<lparr>strengths = [JStr ''fast''], weaknesses = [], opportunities = [], threats = []\<rparr>
   \<and> compareWebsites_extract
      (exampleRuntime [(''{"strengths":["fast"]}'', JObj [(''strengths'', JArr [JStr ''fast''])])])
      exampleSite [] ''Sure: {"strengths":["fast"]} Done.''
    = spec_extract
      (exampleRuntime [(''{"strengths":["fast"]}'', JObj [(''strengths'', JArr [JStr ''fast''])])])
      exampleSite [] ''Sure: {"strengths":["fast"]} Done.''
   \<and> compareWebsites_extract
      (exampleRuntime [(''{"strengths":["fast"]}'', JObj [(''strengths'', JArr [JStr ''fast''])])])
      exampleSite [] ''Sure: {"strengths":[fast]} Done.''
    = generateFallbackSWOT exampleSite []
   \<and> compareWebsites_extract
      (exampleRuntime [(''{"strengths":["fast"]}'', JObj [(''strengths'', JArr [JStr ''fast''])])])
      exampleSite [] ''I cannot compare these sites.''
    = generateFallbackSWOT exampleSite []\<close>
proof -
  let ?js = \<open>''{"strengths":["fast"]}''\<close>
  let ?rt = "exampleRuntime [(?js, JObj [(''strengths'', JArr [JStr ''fast''])])]"
  let ?r = "\<lparr>strengths = [JStr ''fast''], weaknesses = [], opportunities = [], threats = []\<rparr>"
  let ?pre = "''Here is the analysis:'' @ [CHR 0x0A]"
  let ?rest = "''json'' @ CHR 0x0A # ?js @ CHR 0x0A # ''```'' @ CHR 0x0A # ''Hope it helps.''"
  let ?block = "?js @ [CHR 0x0A]"
  let ?post = "CHR 0x0A # ''Hope it helps.''"
  let ?fenced = "''Here is the analysis:'' @ CHR 0x0A # ''```json'' @ CHR 0x0A # ?js
              @ CHR 0x0A # ''```'' @ CHR 0x0A # ''Hope it helps.''"
  let ?plain = \<open>''Sure: {"strengths":["fast"]} Done.''\<close>
  let ?broken = \<open>''Sure: {"strengths":[fast]} Done.''\<close>
  let ?prose = "''I cannot compare these sites.''"
  let ?two = \<open>''``` ``` ```json {"strengths":["fast"]} ```''\<close>
  let ?open = \<open>''```json {"strengths":["fast"]}''\<close>
  have p: "parseSwot ?rt ?js = Inr ?r"
    by (simp add: parseSwot_def exampleRuntime_def swotOf_def andThen_def arrayOrEmpty_def)
  have h1: "?fenced = ?pre @ ''```'' @ ?rest \<and> \<not> includesStr (?pre @ ''``'') ''```''
        \<and> dropWhile is_ws (if startsWith ?rest ''json'' then drop 4 ?rest else ?rest)
            = ?block @ ''```'' @ ?post
        \<and> \<not> includesStr (?block @ ''``'') ''```''"
    by code_simp
  have tr: "(if ?block \<noteq> [] then trim ?block else ?fenced) = ?js" by code_simp
  note fence = compareWebsites_extraction
      [where tx = ?fenced and pre = ?pre and rest = ?rest and block = ?block and post = ?post
         and rt = ?rt and m = exampleSite and cs = "[]" and r = ?r,
       THEN conjunct2, THEN conjunct1]
  from fence h1 have "codeBlockMatch ?fenced = Some ?block
          \<and> jsonCandidate ?fenced = (if ?block \<noteq> [] then trim ?block else ?fenced)"
    by (rule mp)
  then have c1: "jsonCandidate ?fenced = ?js" unfolding tr by blast
  from compareWebsites_extraction
      [where tx = ?fenced and rt = ?rt and m = exampleSite and cs = "[]" and r = ?r]
  have "(parseSwot ?rt (jsonCandidate ?fenced) = Inr ?r
           \<longrightarrow> compareWebsites_extract ?rt exampleSite [] ?fenced = ?r)
        \<and> compareWebsites ?rt (Inr ?fenced) exampleSite []
            = compareWebsites_extract ?rt exampleSite [] ?fenced"
    by blast
  with p have 1: "compareWebsites ?rt (Inr ?fenced) exampleSite [] = ?r"
    unfolding c1 by simp
  have h2: "?two = [] @ ''```'' @ drop 3 ?two \<and> \<not> includesStr ([] @ ''``'') ''```''
        \<and> dropWhile is_ws (if startsWith (drop 3 ?two) ''json'' then drop 4 (drop 3 ?two)
                             else drop 3 ?two)
            = [] @ ''```'' @ drop 7 ?two
        \<and> \<not> includesStr ([] @ ''``'') ''```''"
    by code_simp
  note empty = compareWebsites_extraction
      [where tx = ?two and pre = "[]" and rest = "drop 3 ?two" and block = "[]"
         and post = "drop 7 ?two", THEN conjunct2, THEN conjunct1]
  from empty h2 have "codeBlockMatch ?two = Some []
          \<and> jsonCandidate ?two = (if [] \<noteq> ([] :: string) then trim [] else ?two)"
    by (rule mp)
  then have 2: "jsonCandidate ?two = ?two" by simp
  have h3: "?open = [] @ ''```'' @ drop 3 ?open \<and> \<not> includesStr ([] @ ''``'') ''```''
        \<and> \<not> includesStr (dropWhile is_ws (if startsWith (drop 3 ?open) ''json''
                                            then drop 4 (drop 3 ?open) else drop 3 ?open)) ''```''"
    by code_simp
  note unclosed = compareWebsites_extraction
      [where tx = ?open and pre = "[]" and rest = "drop 3 ?open",
       THEN conjunct2, THEN conjunct2, THEN conjunct1]
  from unclosed h3 have "codeBlockMatch ?open = None \<and> jsonCandidate ?open = ?open"
    by (rule mp)
  then have 3: "jsonCandidate ?open = ?open" by blast
  have nofence: "\<not> includesStr ?plain ''```''" "\<not> includesStr ?broken ''```''"
    "\<not> includesStr ?prose ''```''"
    by code_simp+
  have cand: "jsonCandidate ?plain = ?plain" "jsonCandidate ?broken = ?broken"
    "jsonCandidate ?prose = ?prose"
    using compareWebsites_extraction [where tx = ?plain, THEN conjunct1]
      compareWebsites_extraction [where tx = ?broken, THEN conjunct1]
      compareWebsites_extraction [where tx = ?prose, THEN conjunct1] nofence
    by blast+
  have p0: "parseSwot ?rt ?plain = Inl (Error ''SyntaxError'')"
    "parseSwot ?rt ?broken = Inl (Error ''SyntaxError'')"
    "parseSwot ?rt ?prose = Inl (Error ''SyntaxError'')"
    by (simp_all add: parseSwot_def exampleRuntime_def)
  have idx: "indexOf ?plain CHR ''{'' = 6" "lastIndexOf ?plain CHR ''}'' = 27"
    by code_simp+
  have sub: "substring ?plain 6 28 = ?js" by code_simp
  have prem: "parseSwot ?rt (jsonCandidate ?plain) = Inl (Error ''SyntaxError'')
        \<and> indexOf (jsonCandidate ?plain) CHR ''{'' \<noteq> - 1
        \<and> lastIndexOf (jsonCandidate ?plain) CHR ''}'' > indexOf (jsonCandidate ?plain) CHR ''{''
        \<and> parseSwot ?rt (substring (jsonCandidate ?plain)
              (nat (indexOf (jsonCandidate ?plain) CHR ''{''))
              (nat (lastIndexOf (jsonCandidate ?plain) CHR ''}'' + 1))) = Inr ?r"
    unfolding cand idx using p0 sub p by simp
  from compareWebsites_extraction
      [where tx = ?plain and rt = ?rt and m = exampleSite and cs = "[]" and r = ?r
         and e = "Error ''SyntaxError''"]
  have "parseSwot ?rt (jsonCandidate ?plain) = Inl (Error ''SyntaxError'')
        \<and> indexOf (jsonCandidate ?plain) CHR ''{'' \<noteq> - 1
        \<and> lastIndexOf (jsonCandidate ?plain) CHR ''}'' > indexOf (jsonCandidate ?plain) CHR ''{''
        \<and> parseSwot ?rt (substring (jsonCandidate ?plain)
              (nat (indexOf (jsonCandidate ?plain) CHR ''{''))
              (nat (lastIndexOf (jsonCandidate ?plain) CHR ''}'' + 1))) = Inr ?r
      \<longrightarrow> compareWebsites_extract ?rt exampleSite [] ?plain = ?r"
    by blast
  with prem have 4: "compareWebsites_extract ?rt exampleSite [] ?plain = ?r" by blast
  from compareWebsites_extraction
      [where tx = ?plain and rt = ?rt and m = exampleSite and cs = "[]", THEN conjunct1] nofence(1)
  have 5: "compareWebsites_extract ?rt exampleSite [] ?plain = spec_extract ?rt exampleSite [] ?plain"
    by blast
  have idxb: "indexOf ?broken CHR ''{'' = 6" "lastIndexOf ?broken CHR ''}'' = 25"
    by code_simp+
  have subb: "parseSwot ?rt (substring ?broken 6 26) = Inl (Error ''SyntaxError'')"
    by (simp add: parseSwot_def exampleRuntime_def substring_def)
  have premb: "parseSwot ?rt (jsonCandidate ?broken) = Inl (Error ''SyntaxError'')
        \<and> (indexOf (jsonCandidate ?broken) CHR ''{'' = - 1
            \<or> lastIndexOf (jsonCandidate ?broken) CHR ''}'' = - 1
            \<or> lastIndexOf (jsonCandidate ?broken) CHR ''}'' \<le> indexOf (jsonCandidate ?broken) CHR ''{''
            \<or> parseSwot ?rt (substring (jsonCandidate ?broken)
                  (nat (indexOf (jsonCandidate ?broken) CHR ''{''))
                  (nat (lastIndexOf (jsonCandidate ?broken) CHR ''}'' + 1)))
                = Inl (Error ''SyntaxError''))"
    unfolding cand idxb using p0 subb by simp
  from compareWebsites_extraction
      [where tx = ?broken and rt = ?rt and m = exampleSite and cs = "[]"
         and e = "Error ''SyntaxError''" and e' = "Error ''SyntaxError''"]
  have "parseSwot ?rt (jsonCandidate ?broken) = Inl (Error ''SyntaxError'')
        \<and> (indexOf (jsonCandidate ?broken) CHR ''{'' = - 1
            \<or> lastIndexOf (jsonCandidate ?broken) CHR ''}'' = - 1
            \<or> lastIndexOf (jsonCandidate ?broken) CHR ''}'' \<le> indexOf (jsonCandidate ?broken) CHR ''{''
            \<or> parseSwot ?rt (substring (jsonCandidate ?broken)
                  (nat (indexOf (jsonCandidate ?broken) CHR ''{''))
                  (nat (lastIndexOf (jsonCandidate ?broken) CHR ''}'' + 1)))
                = Inl (Error ''SyntaxError''))
      \<longrightarrow> compareWebsites_extract ?rt exampleSite [] ?broken = generateFallbackSWOT exampleSite []"
    by blast
  with premb have 6: "compareWebsites_extract ?rt exampleSite [] ?broken
                        = generateFallbackSWOT exampleSite []" by blast
  have idxp: "indexOf ?prose CHR ''{'' = - 1" by (simp add: indexOf_def)
  have premp: "parseSwot ?rt (jsonCandidate ?prose) = Inl (Error ''SyntaxError'')
        \<and> (indexOf (jsonCandidate ?prose) CHR ''{'' = - 1
            \<or> lastIndexOf (jsonCandidate ?prose) CHR ''}'' = - 1
            \<or> lastIndexOf (jsonCandidate ?prose) CHR ''}'' \<le> indexOf (jsonCandidate ?prose) CHR ''{''
            \<or> parseSwot ?rt (substring (jsonCandidate ?prose)
                  (nat (indexOf (jsonCandidate ?prose) CHR ''{''))
                  (nat (lastIndexOf (jsonCandidate ?prose) CHR ''}'' + 1)))
                = Inl (Error ''SyntaxError''))"
    unfolding cand idxp using p0 by simp
  from compareWebsites_extraction
      [where tx = ?prose and rt = ?rt and m = exampleSite and cs = "[]"
         and e = "Error ''SyntaxError''" and e' = "Error ''SyntaxError''"]
  have "parseSwot ?rt (jsonCandidate ?prose) = Inl (Error ''SyntaxError'')
        \<and> (indexOf (jsonCandidate ?prose) CHR ''{'' = - 1
            \<or> lastIndexOf (jsonCandidate ?prose) CHR ''}'' = - 1
            \<or> lastIndexOf (jsonCandidate ?prose) CHR ''}'' \<le> indexOf (jsonCandidate ?prose) CHR ''{''
            \<or> parseSwot ?rt (substring (jsonCandidate ?prose)
                  (nat (indexOf (jsonCandidate ?prose) CHR ''{''))
                  (nat (lastIndexOf (jsonCandidate ?prose) CHR ''}'' + 1)))
                = Inl (Error ''SyntaxError''))
      \<longrightarrow> compareWebsites_extract ?rt exampleSite [] ?prose = generateFallbackSWOT exampleSite []"
    by blast
  with premp have 7: "compareWebsites_extract ?rt exampleSite [] ?prose
                        = generateFallbackSWOT exampleSite []" by blast
  from 1 c1 2 3 4 5 6 7 show ?thesis by simp
qed

section \<open>The polling loop\<close>

declare pollLoop.simps [simp del]

lemma fetch_resolves:
  "net (calls s) = Inr resp \<Longrightarrow>
     fetchWithRetry net retries backoff s = (Inr resp, s\<lparr>calls := calls s + 1\<rparr>)"
  by (simp add: fetchWithRetry.simps)

lemma pollOnce_running:
  assumes "net (calls s) = Inr resp" and "stillRunning rt resp"
  shows "pollOnce rt net s = (Polling, s\<lparr>calls := calls s + 1, sleeps := sleeps s @ [5000]\<rparr>)"
proof -
  from assms(1) have "net (calls (s\<lparr>sleeps := sleeps s @ [5000]\<rparr>)) = Inr resp" by simp
  with fetch_resolves [of net "s\<lparr>sleeps := sleeps s @ [5000]\<rparr>" resp 3 1000]
  have f: "fetchWithRetry net 3 1000 (s\<lparr>sleeps := sleeps s @ [5000]\<rparr>)
             = (Inr resp, s\<lparr>sleeps := sleeps s @ [5000], calls := calls s + 1\<rparr>)"
    by simp
  from assms(2) show ?thesis
    by (auto simp: pollOnce_def f stillRunning_def split: sum.splits)
qed

lemma timeout_message: "string_of_nat maxAttempts = ''30''"
  by code_simp

lemma pollLoop_running:
  assumes "\<forall>i\<ge>calls s. \<exists>resp. net i = Inr resp \<and> stillRunning rt resp"
    and "attempts \<le> maxAttempts"
  shows "pollLoop rt net attempts s =
           (Inl (Error ''Cheerio Scraper task did not complete after 30 attempts''),
            s\<lparr>calls := calls s + (maxAttempts - attempts),
              sleeps := sleeps s @ replicate (maxAttempts - attempts) 5000\<rparr>)"
  using assms
proof (induction "maxAttempts - attempts" arbitrary: attempts s)
  case 0
  then have "attempts = maxAttempts" by simp
  then show ?case
    by (simp add: pollLoop.simps [of rt net maxAttempts s] timeout_message)
next
  case (Suc n)
  then have lt: "attempts < maxAttempts" by simp
  from Suc.prems(1) obtain resp where r: "net (calls s) = Inr resp" "stillRunning rt resp"
    by auto
  let ?s1 = "s\<lparr>calls := calls s + 1, sleeps := sleeps s @ [5000]\<rparr>"
  have step: "pollLoop rt net attempts s = pollLoop rt net (attempts + 1) ?s1"
    using lt pollOnce_running [of net s resp rt] r
    by (simp add: pollLoop.simps [of rt net attempts s])
  have n: "n = maxAttempts - (attempts + 1)" using Suc.hyps(2) by simp
  have all: "\<forall>i\<ge>calls ?s1. \<exists>resp. net i = Inr resp \<and> stillRunning rt resp"
    using Suc.prems(1) by simp
  have le: "attempts + 1 \<le> maxAttempts" using lt by simp
  have rep: "maxAttempts - attempts = Suc (maxAttempts - (attempts + 1))" using lt by simp
  show ?case
    unfolding step Suc.hyps(1) [OF n all le]
    by (simp add: rep replicate_append_same)
qed

lemma scrapeWebsite_try_timeout:
  assumes "apifyToken = Some tok" "tok \<noteq> []"
    and "net (calls s) = Inr r0" "startAccepted rt r0"
    and "\<forall>i>calls s. \<exists>resp. net i = Inr resp \<and> stillRunning rt resp"
  shows "scrapeWebsite_try rt apifyToken net s =
           (Inl (Error ''Cheerio Scraper task did not complete after 30 attempts''),
            s\<lparr>calls := calls s + 31, sleeps := sleeps s @ replicate 30 5000\<rparr>)"
proof -
  let ?s1 = "s\<lparr>calls := calls s + 1\<rparr>"
  have all: "\<forall>i\<ge>calls ?s1. \<exists>resp. net i = Inr resp \<and> stillRunning rt resp"
    using assms(5) by simp
  have "pollLoop rt net 0 ?s1 =
           (Inl (Error ''Cheerio Scraper task did not complete after 30 attempts''),
            ?s1\<lparr>calls := calls ?s1 + (maxAttempts - 0),
              sleeps := sleeps ?s1 @ replicate (maxAttempts - 0) 5000\<rparr>)"
    by (rule pollLoop_running [OF all]) simp
  then have loop: "pollLoop rt net 0 ?s1 =
           (Inl (Error ''Cheerio Scraper task did not complete after 30 attempts''),
            s\<lparr>calls := calls s + 31, sleeps := sleeps s @ replicate 30 5000\<rparr>)"
    by (simp add: maxAttempts_def)
  from assms(4) obtain runId where "startedRun rt r0 = Inr runId" and "ok r0"
    by (cases "startedRun rt r0") (auto simp: startAccepted_def)
  with assms(1,2) loop show ?thesis
    using fetch_resolves [of net s r0 3 1000] assms(3)
    by (simp add: scrapeWebsite_try_def)
qed

lemma extractProductData_empty:
  "fst (extractProductData rt key net s (Some [])) = Some []"
  "snd (extractProductData rt key net s (Some [])) = s"
  by (auto simp: extractProductData_def)

lemma analyzeProducts_try_empty:
  assumes "scrapeWebsite (engine e) (APIFY_API_TOKEN e) (network e) s = ([], s1)"
  shows "analyzeProducts_try e ident site cat s =
           (Inr \<lparr>resultId = ident, date = Date_now e, website = site, category = cat,
                 resultStatus = Completed, products = [],
                 analysis = Some (analyzeProductData (analysisTry e) []), error = None\<rparr>, s1)"
proof -
  obtain x y where xy: "extractProductData (engine e) (GEMINI_API_KEY e) (network e) s1 (Some []) = (x, y)"
    by (cases "extractProductData (engine e) (GEMINI_API_KEY e) (network e) s1 (Some [])")
  with extractProductData_empty [of "engine e" "GEMINI_API_KEY e" "network e" s1]
  have "x = Some []" "y = s1" by simp_all
  with xy assms show ?thesis
    by (simp add: analyzeProducts_try_def enumerate_eq_zip)
qed

lemma persisted_storage_set: "persisted (storage_set key v js) key = Some v"
  by (simp add: persisted_def storage_set_def)

lemma analyzeProducts_timeout:
  assumes "APIFY_API_TOKEN e = Some tok" "tok \<noteq> []"
    and "network e (calls (netState js)) = Inr r0" "startAccepted (engine e) r0"
    and "\<forall>i>calls (netState js). \<exists>resp. network e i = Inr resp \<and> stillRunning (engine e) resp"
  shows "persisted (analyzeProducts e ident site cat js) (''product-comparison:'' @ ident)
           = Some \<lparr>resultId = ident, date = Date_now e, website = site, category = cat,
                   resultStatus = Completed, products = [],
                   analysis = Some (analyzeProductData (analysisTry e) []), error = None\<rparr>"
proof -
  from scrapeWebsite_try_timeout [OF assms]
  have "scrapeWebsite (engine e) (APIFY_API_TOKEN e) (network e) (netState js)
          = ([], (netState js)\<lparr>calls := calls (netState js) + 31,
                               sleeps := sleeps (netState js) @ replicate 30 5000\<rparr>)"
    by (simp add: scrapeWebsite_def)
  from analyzeProducts_try_empty [OF this] show ?thesis
    by (simp add: analyzeProducts_def persisted_storage_set)
qed

section \<open>A run that succeeds\<close>

lemma pollLoop_polling:
  "attempts < maxAttempts \<Longrightarrow> pollOnce rt net s = (Polling, s') \<Longrightarrow>
     pollLoop rt net attempts s = pollLoop rt net (attempts + 1) s'"
  by (simp add: pollLoop.simps [of rt net attempts s])

lemma pollLoop_done:
  "attempts < maxAttempts \<Longrightarrow> pollOnce rt net s = (Done r, s') \<Longrightarrow>
     pollLoop rt net attempts s = (Inr r, s')"
  by (simp add: pollLoop.simps [of rt net attempts s])

lemmas eval_defs =
  fetchWithRetry.simps pollOnce_def runStatus_def safeJsonParse_def andThen_def
  terminalFailure_def flat_def exampleRuntime_def printed_def datasetOutcome_def
  lengthOf_def greaterThanZero_def imageUrlLogged_def

lemma scenario_scrape:
  "scrapeWebsite (engine succeedingEnv) (APIFY_API_TOKEN succeedingEnv) (network succeedingEnv)
     \<lparr>calls = 0, sleeps = []\<rparr>
   = ([JObj [(''name'', JStr ''Widget''), (''price'', JStr ''$19.99'')]],
      \<lparr>calls = 5, sleeps = [5000, 5000, 5000]\<rparr>)"
proof -
  let ?rt = "engine succeedingEnv"
  let ?net = "succeedingNetwork"
  have p1: "pollOnce ?rt ?net \<lparr>calls = 1, sleeps = []\<rparr> = (Polling, \<lparr>calls = 2, sleeps = [5000]\<rparr>)"
    by (simp add: eval_defs succeedingEnv_def succeedingNetwork_def)
  have p2: "pollOnce ?rt ?net \<lparr>calls = 2, sleeps = [5000]\<rparr>
              = (Polling, \<lparr>calls = 3, sleeps = [5000, 5000]\<rparr>)"
    by (simp add: eval_defs succeedingEnv_def succeedingNetwork_def)
  have p3: "pollOnce ?rt ?net \<lparr>calls = 3, sleeps = [5000, 5000]\<rparr>
              = (Done [JObj [(''name'', JStr ''Widget''), (''price'', JStr ''$19.99'')]],
                 \<lparr>calls = 5, sleeps = [5000, 5000, 5000]\<rparr>)"
    by (simp add: eval_defs succeedingEnv_def succeedingNetwork_def)
  have "pollLoop ?rt ?net 0 \<lparr>calls = 1, sleeps = []\<rparr>
          = pollLoop ?rt ?net 1 \<lparr>calls = 2, sleeps = [5000]\<rparr>"
    using pollLoop_polling [OF _ p1, of 0] by (simp add: maxAttempts_def)
  also have "\<dots> = pollLoop ?rt ?net 2 \<lparr>calls = 3, sleeps = [5000, 5000]\<rparr>"
    using pollLoop_polling [OF _ p2, of 1] by (simp add: maxAttempts_def numeral_2_eq_2)
  also have "\<dots> = (Inr [JObj [(''name'', JStr ''Widget''), (''price'', JStr ''$19.99'')]],
                      \<lparr>calls = 5, sleeps = [5000, 5000, 5000]\<rparr>)"
    using pollLoop_done [OF _ p3, of 2] by (simp add: maxAttempts_def)
  finally have loop: "pollLoop ?rt ?net 0 \<lparr>calls = 1, sleeps = []\<rparr>
          = (Inr [JObj [(''name'', JStr ''Widget''), (''price'', JStr ''$19.99'')]],
             \<lparr>calls = 5, sleeps = [5000, 5000, 5000]\<rparr>)" .
  have start: "scrapeWebsite_try ?rt (Some ''apify-token'') ?net \<lparr>calls = 0, sleeps = []\<rparr>
                 = pollLoop ?rt ?net 0 \<lparr>calls = 1, sleeps = []\<rparr>"
    by (simp add: scrapeWebsite_try_def startedRun_def printed_def fetchWithRetry.simps
        safeJsonParse_def andThen_def exampleRuntime_def succeedingEnv_def succeedingNetwork_def)
  have env: "APIFY_API_TOKEN succeedingEnv = Some ''apify-token''"
    "network succeedingEnv = succeedingNetwork"
    by (simp_all add: succeedingEnv_def)
  show ?thesis
    unfolding scrapeWebsite_def env start loop by simp
qed

lemma ids: "string_of_nat 1700000000000 = ''1700000000000''" "string_of_nat 0 = ''0''"
  by (simp_all add: string_of_nat.simps digit_char_def)

lemma a1: "analyzeProducts_try succeedingEnv ''job1'' ''example.com'' (Some ''widgets'') \<lparr>calls = 0, sleeps = []\<rparr>
  = (Inr \<lparr>resultId = ''job1'', date = 1700000000000, website = ''example.com'',
             category = Some ''widgets'', resultStatus = Completed,
             products = [JObj [(''name'', JStr ''Widget''), (''price'', JStr ''$19.99''),
                               (''id'', JStr ''product-0-1700000000000''),
                               (''imageKey'', JStr ''img-0-1700000000000'')]],
             analysis = Some \<lparr>priceRanges = \<lparr>min_price = 0, max_price = 0, average_price = 0\<rparr>,
                               topRatedProducts = [], mostReviewedProducts = [],
                               recommendations = []\<rparr>,
             error = None\<rparr>, \<lparr>calls = 5, sleeps = [5000, 5000, 5000]\<rparr>)"
proof -
  have gem: "GEMINI_API_KEY succeedingEnv = None" "Date_now succeedingEnv = 1700000000000"
    "analysisTry succeedingEnv = (\<lambda>ps. Inl (Error ''GEMINI_API_KEY environment variable is not set''))"
    by (simp_all add: succeedingEnv_def)
  have w: "withIds 1700000000000
            (0, JObj [(''name'', JStr ''Widget''), (''price'', JStr ''$19.99'')])
          = JObj [(''name'', JStr ''Widget''), (''price'', JStr ''$19.99''),
                  (''id'', JStr ''product-0-1700000000000''),
                  (''imageKey'', JStr ''img-0-1700000000000'')]"
    unfolding withIds_def by (simp add: ids del: One_nat_def)
  show ?thesis
    unfolding analyzeProducts_try_def scenario_scrape
    by (simp add: extractProductData_def gem w analyzeProductData_def)
qed


lemma scenario_run:
  "runProductComparison succeedingEnv ''job1'' (Some ''example.com'') (Some ''widgets'') freshJob
   = Inr (''job1'',
       \<lparr>writes =
          [(''product-comparison:job1'',
            \<lparr>resultId = ''job1'', date = 1700000000000, website = ''example.com'',
             category = Some ''widgets'', resultStatus = Running, products = [],
             analysis = None, error = None\<rparr>),
           (''product-comparison:job1'',
            \<lparr>resultId = ''job1'', date = 1700000000000, website = ''example.com'',
             category = Some ''widgets'', resultStatus = Completed,
             products = [JObj [(''name'', JStr ''Widget''), (''price'', JStr ''$19.99''),
                               (''id'', JStr ''product-0-1700000000000''),
                               (''imageKey'', JStr ''img-0-1700000000000'')]],
             analysis = Some \<lparr>priceRanges = \<lparr>min_price = 0, max_price = 0, average_price = 0\<rparr>,
                               topRatedProducts = [], mostReviewedProducts = [],
                               recommendations = []\<rparr>,
             error = None\<rparr>)],
        netState = \<lparr>calls = 5, sleeps = [5000, 5000, 5000]\<rparr>\<rparr>)"
  by (simp add: runProductComparison_def analyzeProducts_def storage_set_def freshJob_def a1
      succeedingEnv_def [THEN arg_cong [of _ _ Date_now], simplified])

section \<open>The persisted record\<close>

lemma polling_facts:
  "APIFY_API_TOKEN pollingEnv = Some ''apify-token''"
  "network pollingEnv (calls (netState freshJob))
     = Inr \<lparr>ok = True, status = 201, statusText = ''Created'',
            body = ''{\"data\":{\"id\":\"run1\"}}''\<rparr>"
  "startAccepted (engine pollingEnv)
     \<lparr>ok = True, status = 201, statusText = ''Created'',
      body = ''{\"data\":{\"id\":\"run1\"}}''\<rparr>"
  "\<forall>i>calls (netState freshJob).
      \<exists>resp. network pollingEnv i = Inr resp \<and> stillRunning (engine pollingEnv) resp"
  by (simp_all add: pollingEnv_def pollingNetwork_def freshJob_def startAccepted_def
      startedRun_def printed_def stillRunning_def runStatus_def safeJsonParse_def andThen_def
      exampleRuntime_def terminalFailure_def)

lemma netState_storage_set: "netState (storage_set key v js) = netState js"
  by (simp add: storage_set_def)

lemma persisted_after_placeholder:
  "persisted (analyzeProducts e ident site cat (storage_set key v js)) (''product-comparison:'' @ ident)
     = persisted (analyzeProducts e ident site cat js) (''product-comparison:'' @ ident)"
  by (simp add: analyzeProducts_def storage_set_def persisted_def split: prod.splits sum.splits)

text \<open>
  Claim C2, amended.  When the scraper accepts the run and every poll of the attempt
  budget shows a run that has not ended, the loop makes its 30 attempts, 5 seconds
  apart, and the \<open>try\<close> block of \<open>scrapeWebsite\<close> throws the error
  \<open>Cheerio Scraper task did not complete after 30 attempts\<close>.  The \<open>catch\<close> of
  \<open>scrapeWebsite\<close> absorbs it and returns the empty array, so \<open>analyzeProducts\<close> goes
  on with no products: the record persisted for the job has status \<open>completed\<close>, no
  products, an analysis and no error string.
\<close>

theorem poll_timeout_persisted:
  assumes "APIFY_API_TOKEN e = Some tok" and "tok \<noteq> []"
    and "network e (calls (netState js)) = Inr r0" and "startAccepted (engine e) r0"
    and "\<forall>i>calls (netState js). \<exists>resp. network e i = Inr resp \<and> stillRunning (engine e) resp"
  shows "fst (scrapeWebsite_try (engine e) (APIFY_API_TOKEN e) (network e) (netState js))
           = Inl (Error ''Cheerio Scraper task did not complete after 30 attempts'')
         \<and> includesStr ''Cheerio Scraper task did not complete after 30 attempts''
               ''did not complete after''
         \<and> sleeps (snd (scrapeWebsite_try (engine e) (APIFY_API_TOKEN e) (network e) (netState js)))
               = sleeps (netState js) @ replicate 30 5000
         \<and> fst (scrapeWebsite (engine e) (APIFY_API_TOKEN e) (network e) (netState js)) = []
         \<and> persisted (analyzeProducts e ident site cat js) (''product-comparison:'' @ ident)
               = Some \<lparr>resultId = ident, date = Date_now e, website = site, category = cat,
                       resultStatus = Completed, products = [],
                       analysis = Some (analyzeProductData (analysisTry e) []), error = None\<rparr>
         \<and> (site \<noteq> [] \<longrightarrow>
               map_sum id (\<lambda>p. persisted (snd p) (''product-comparison:'' @ fst p))
                 (runProductComparison e ident (Some site) cat js)
               = Inr (Some \<lparr>resultId = ident, date = Date_now e, website = site, category = cat,
                       resultStatus = Completed, products = [],
                       analysis = Some (analyzeProductData (analysisTry e) []), error = None\<rparr>))"
proof -
  note t = scrapeWebsite_try_timeout [OF assms]
  have inc: "includesStr ''Cheerio Scraper task did not complete after 30 attempts''
               ''did not complete after''"
    by code_simp
  note p = analyzeProducts_timeout [OF assms, of ident site cat]
  have run: "map_sum id (\<lambda>p. persisted (snd p) (''product-comparison:'' @ fst p))
                 (runProductComparison e ident (Some site) cat js)
               = Inr (Some \<lparr>resultId = ident, date = Date_now e, website = site, category = cat,
                       resultStatus = Completed, products = [],
                       analysis = Some (analyzeProductData (analysisTry e) []), error = None\<rparr>)"
    if "site \<noteq> []"
  proof -
    let ?r0 = "\<lparr>resultId = ident, date = Date_now e, website = site, category = cat,
                 resultStatus = Running, products = [], analysis = None, error = None\<rparr>"
    from that have "runProductComparison e ident (Some site) cat js
            = Inr (ident, analyzeProducts e ident site cat
                     (storage_set (''product-comparison:'' @ ident) ?r0 js))"
      by (simp add: runProductComparison_def Let_def)
    then have "map_sum id (\<lambda>p. persisted (snd p) (''product-comparison:'' @ fst p))
                 (runProductComparison e ident (Some site) cat js)
               = Inr (persisted (analyzeProducts e ident site cat
                     (storage_set (''product-comparison:'' @ ident) ?r0 js))
                   (''product-comparison:'' @ ident))"
      by (simp only: map_sum.simps fst_conv snd_conv)
    then show ?thesis
      by (simp only: persisted_after_placeholder p)
  qed
  show ?thesis
    using t inc p run
    by (simp add: scrapeWebsite_def)
qed

theorem poll_timeout_persisted_witness:
  "fst (scrapeWebsite_try (engine pollingEnv) (APIFY_API_TOKEN pollingEnv) (network pollingEnv)
          (netState freshJob))
     = Inl (Error ''Cheerio Scraper task did not complete after 30 attempts'')
   \<and> map_sum id (\<lambda>p. persisted (snd p) (''product-comparison:'' @ fst p))
         (runProductComparison pollingEnv ''job1'' (Some ''example.com'') None freshJob)
       = Inr (Some \<lparr>resultId = ''job1'', date = 1700000000000, website = ''example.com'',
                    category = None, resultStatus = Completed, products = [],
                    analysis = Some \<lparr>priceRanges = \<lparr>min_price = 0, max_price = 0, average_price = 0\<rparr>,
                                      topRatedProducts = [], mostReviewedProducts = [],
                                      recommendations = []\<rparr>,
                    error = None\<rparr>)"
proof -
  have ne: "''apify-token'' \<noteq> []" "''example.com'' \<noteq> []" by simp_all
  have a: "analyzeProductData (analysisTry pollingEnv) []
             = \<lparr>priceRanges = \<lparr>min_price = 0, max_price = 0, average_price = 0\<rparr>,
                topRatedProducts = [], mostReviewedProducts = [], recommendations = []\<rparr>"
    "Date_now pollingEnv = 1700000000000"
    by (simp_all add: analyzeProductData_def pollingEnv_def)
  from poll_timeout_persisted [OF polling_facts(1) ne(1) polling_facts(2,3,4), of "''job1''" "''example.com''" None]
    ne(2) a
  show ?thesis by simp
qed

text \<open>
  Claim C2 as stated fails: with a scraper that reports \<open>RUNNING\<close> at every poll, the
  persisted record of the job has status \<open>completed\<close>, not \<open>failed\<close>, and carries no
  error string.
\<close>

theorem poll_timeout_not_failed:
  "map_option resultStatus
     (persisted (analyzeProducts pollingEnv ''job1'' ''example.com'' None freshJob)
        ''product-comparison:job1'') = Some Completed
   \<and> map_option resultStatus
     (persisted (analyzeProducts pollingEnv ''job1'' ''example.com'' None freshJob)
        ''product-comparison:job1'') \<noteq> Some Failed
   \<and> map_option error
     (persisted (analyzeProducts pollingEnv ''job1'' ''example.com'' None freshJob)
        ''product-comparison:job1'') = Some None"
proof -
  have ne: "''apify-token'' \<noteq> []" by simp
  from analyzeProducts_timeout [OF polling_facts(1) ne polling_facts(2,3,4), of "''job1''" "''example.com''" None]
  show ?thesis by simp
qed

lemma analyzeProducts_try_completes:
  "\<exists>r s'. analyzeProducts_try e ident site cat s = (Inr r, s')
      \<and> resultStatus r = Completed \<and> analysis r \<noteq> None"
  by (auto simp: analyzeProducts_try_def Let_def split: prod.splits)

lemma analyzeProducts_writes:
  "\<exists>r. writes (analyzeProducts e ident site cat js)
          = writes js @ [(''product-comparison:'' @ ident, r)] \<and> statusInvariant r"
proof -
  from analyzeProducts_try_completes [of e ident site cat "netState js"]
  obtain r s' where r: "analyzeProducts_try e ident site cat (netState js) = (Inr r, s')"
    "resultStatus r = Completed" "analysis r \<noteq> None" by blast
  then have "statusInvariant r" by (simp add: statusInvariant_def)
  with r show ?thesis by (simp add: analyzeProducts_def storage_set_def)
qed

text \<open>
  Claim C7.  \<open>analyzeProducts\<close> writes one record, which satisfies the invariant.
  \<open>runProductComparison\<close>, when it returns an identifier, has written two records under
  the key of that identifier: first the placeholder, with status \<open>running\<close>, no products
  and no analysis, then the record of the background job; both satisfy the invariant, so
  the invariant holds for every record of the log if it held before.  The record the
  \<open>catch\<close> of \<open>analyzeProducts\<close> builds from an error with a message satisfies it too.
\<close>

theorem result_status_invariant:
  "(\<exists>r. writes (analyzeProducts e ident site cat js)
          = writes js @ [(''product-comparison:'' @ ident, r)] \<and> statusInvariant r)
   \<and> (runProductComparison e uuid formWebsite formCategory js = Inr (i, js') \<longrightarrow>
        i = uuid \<and>
        (\<exists>r0 r1. writes js' = writes js @ [(''product-comparison:'' @ uuid, r0),
                                            (''product-comparison:'' @ uuid, r1)]
           \<and> resultStatus r0 = Running \<and> products r0 = [] \<and> analysis r0 = None
           \<and> statusInvariant r0 \<and> statusInvariant r1))
   \<and> ((\<forall>kr\<in>set (writes js). statusInvariant (snd kr))
        \<and> runProductComparison e uuid formWebsite formCategory js = Inr (i, js')
        \<longrightarrow> (\<forall>kr\<in>set (writes js'). statusInvariant (snd kr)))
   \<and> (message err \<noteq> [] \<longrightarrow> statusInvariant (failedResult e ident site cat err))"
proof -
  have run: "i = uuid \<and>
        (\<exists>r0 r1. writes js' = writes js @ [(''product-comparison:'' @ uuid, r0),
                                            (''product-comparison:'' @ uuid, r1)]
           \<and> resultStatus r0 = Running \<and> products r0 = [] \<and> analysis r0 = None
           \<and> statusInvariant r0 \<and> statusInvariant r1)"
    if a: "runProductComparison e uuid formWebsite formCategory js = Inr (i, js')"
  proof -
    from a obtain site where site: "formWebsite = Some site" "site \<noteq> []"
      by (auto simp: runProductComparison_def split: option.splits if_splits)
    let ?r0 = "\<lparr>resultId = uuid, date = Date_now e, website = site, category = formCategory,
                 resultStatus = Running, products = [], analysis = None, error = None\<rparr>"
    let ?js1 = "storage_set (''product-comparison:'' @ uuid) ?r0 js"
    from a site have i: "i = uuid" and js': "js' = analyzeProducts e uuid site formCategory ?js1"
      by (auto simp: runProductComparison_def Let_def)
    from analyzeProducts_writes [of e uuid site formCategory ?js1] obtain r1 where
      r1: "writes js' = writes ?js1 @ [(''product-comparison:'' @ uuid, r1)]" "statusInvariant r1"
      unfolding js' by blast
    have "statusInvariant ?r0" by (simp add: statusInvariant_def)
    with r1 i show ?thesis
      by (intro conjI exI [of _ ?r0] exI [of _ r1]) (simp_all add: storage_set_def)
  qed
  have handler: "message err \<noteq> [] \<longrightarrow> statusInvariant (failedResult e ident site cat err)"
    by (simp add: statusInvariant_def failedResult_def)
  have all: "(\<forall>kr\<in>set (writes js). statusInvariant (snd kr))
        \<and> runProductComparison e uuid formWebsite formCategory js = Inr (i, js')
        \<longrightarrow> (\<forall>kr\<in>set (writes js'). statusInvariant (snd kr))"
  proof (intro impI ballI)
    fix kr
    assume h: "(\<forall>kr\<in>set (writes js). statusInvariant (snd kr))
        \<and> runProductComparison e uuid formWebsite formCategory js = Inr (i, js')"
      and kr: "kr \<in> set (writes js')"
    from h run obtain r0 r1 where
      w: "writes js' = writes js @ [(''product-comparison:'' @ uuid, r0),
                                   (''product-comparison:'' @ uuid, r1)]"
      and inv: "statusInvariant r0" "statusInvariant r1"
      by blast
    from kr have "kr \<in> set (writes js) \<or> snd kr = r0 \<or> snd kr = r1"
      unfolding w by auto
    with h inv show "statusInvariant (snd kr)" by blast
  qed
  from analyzeProducts_writes [of e ident site cat js] run handler all
  show ?thesis by blast
qed

theorem result_status_invariant_witness:
  "runProductComparison succeedingEnv ''job1'' (Some ''example.com'') (Some ''widgets'') freshJob
   = Inr (''job1'',
       \<lparr>writes =
          [(''product-comparison:job1'',
            \<lparr>resultId = ''job1'', date = 1700000000000, website = ''example.com'',
             category = Some ''widgets'', resultStatus = Running, products = [],
             analysis = None, error = None\<rparr>),
           (''product-comparison:job1'',
            \<lparr>resultId = ''job1'', date = 1700000000000, website = ''example.com'',
             category = Some ''widgets'', resultStatus = Completed,
             products = [JObj [(''name'', JStr ''Widget''), (''price'', JStr ''$19.99''),
                               (''id'', JStr ''product-0-1700000000000''),
                               (''imageKey'', JStr ''img-0-1700000000000'')]],
             analysis = Some \<lparr>priceRanges = \<lparr>min_price = 0, max_price = 0, average_price = 0\<rparr>,
                               topRatedProducts = [], mostReviewedProducts = [],
                               recommendations = []\<rparr>,
             error = None\<rparr>)],
        netState = \<lparr>calls = 5, sleeps = [5000, 5000, 5000]\<rparr>\<rparr>)
   \<and> statusInvariant
        \<lparr>resultId = ''job1'', date = 1700000000000, website = ''example.com'',
         category = Some ''widgets'', resultStatus = Running, products = [],
         analysis = None, error = None\<rparr>
   \<and> statusInvariant
        \<lparr>resultId = ''job1'', date = 1700000000000, website = ''example.com'',
         category = Some ''widgets'', resultStatus = Completed,
         products = [JObj [(''name'', JStr ''Widget''), (''price'', JStr ''$19.99''),
                           (''id'', JStr ''product-0-1700000000000''),
                           (''imageKey'', JStr ''img-0-1700000000000'')]],
         analysis = Some \<lparr>priceRanges = \<lparr>min_price = 0, max_price = 0, average_price = 0\<rparr>,
                           topRatedProducts = [], mostReviewedProducts = [],
                           recommendations = []\<rparr>,
         error = None\<rparr>
   \<and> statusInvariant (failedResult succeedingEnv ''job1'' ''example.com'' None
                         (Error ''storage unavailable''))"
proof -
  let ?r0 = "\<lparr>resultId = ''job1'', date = 1700000000000, website = ''example.com'',
             category = Some ''widgets'', resultStatus = Running, products = [],
             analysis = None, error = None\<rparr>"
  let ?r1 = "\<lparr>resultId = ''job1'', date = 1700000000000, website = ''example.com'',
             category = Some ''widgets'', resultStatus = Completed,
             products = [JObj [(''name'', JStr ''Widget''), (''price'', JStr ''$19.99''),
                               (''id'', JStr ''product-0-1700000000000''),
                               (''imageKey'', JStr ''img-0-1700000000000'')]],
             analysis = Some \<lparr>priceRanges = \<lparr>min_price = 0, max_price = 0, average_price = 0\<rparr>,
                               topRatedProducts = [], mostReviewedProducts = [],
                               recommendations = []\<rparr>,
             error = None\<rparr>"
  let ?js' = "\<lparr>writes = [(''product-comparison:job1'', ?r0), (''product-comparison:job1'', ?r1)],
              netState = \<lparr>calls = 5, sleeps = [5000, 5000, 5000]\<rparr>\<rparr>"
  have m: "message (Error ''storage unavailable'') \<noteq> []" by simp
  note th = result_status_invariant
         [of succeedingEnv "''job1''" "''example.com''" None freshJob "''job1''"
             "Some ''example.com''" "Some ''widgets''" "''job1''" ?js' "Error ''storage unavailable''"]
  from th scenario_run obtain r0 r1 where
    w: "writes ?js' = writes freshJob @ [(''product-comparison:'' @ ''job1'', r0),
                                       (''product-comparison:'' @ ''job1'', r1)]"
    and inv: "statusInvariant r0" "statusInvariant r1"
    by blast
  from w have "r0 = ?r0" "r1 = ?r1" by (simp_all add: freshJob_def)
  with inv have i: "statusInvariant ?r0" "statusInvariant ?r1" by simp_all
  from th m have f: "statusInvariant (failedResult succeedingEnv ''job1'' ''example.com'' None
                         (Error ''storage unavailable''))"
    by blast
  from scenario_run i f show ?thesis by simp
qed

end
